theory Spec2Isabelle
  imports Main "HOL-Library.Sublist" "HOL-Library.AList"
begin

section \<open>Values and exceptions\<close>

text \<open>
  The program is a Python script (\<^verbatim>\<open>ogs-fetch.py\<close>). Its inputs are JSON documents, read
  from index files and from HTTP responses, so the values it handles are the ones
  \<^verbatim>\<open>json.loads\<close> produces. A Python \<^verbatim>\<open>str\<close> is a \<^typ>\<open>string\<close>; a \<^typ>\<open>char\<close> stands for the
  code point of the same number (U+0000 to U+00FF). A non-integer number is kept as
  its text: the program only stores it and writes it back. A dict is an association list
  in insertion order, looked up with \<^const>\<open>map_of\<close>.
\<close>

datatype json =
    JNull
  | JBool bool
  | JInt int
  | JFloat string
  | JStr string
  | JList "json list"
  | JDict "(string \<times> json) list"

text \<open>
  The exceptions that can leave a function of the script. \<open>NameError\<close> includes
  \<^verbatim>\<open>UnboundLocalError\<close>, \<open>ValueError\<close> includes \<^verbatim>\<open>json.JSONDecodeError\<close>, \<open>IOError\<close> stands
  for \<^verbatim>\<open>OSError\<close> and its subclasses raised by the file system, \<open>HTTPError\<close> and
  \<open>ConnectionError\<close> are the ones of \<^verbatim>\<open>requests\<close>, and \<open>InvalidURL\<close> stands for the
  exceptions \<^verbatim>\<open>requests\<close> raises for a URL it cannot send (\<^verbatim>\<open>MissingSchema\<close>, \<^verbatim>\<open>InvalidSchema\<close>,
  \<^verbatim>\<open>InvalidURL\<close>).

  \<open>OutsideModel\<close> is not a Python exception. The dataclasses annotate \<^verbatim>\<open>id: int\<close> and
  \<^verbatim>\<open>name: str\<close>, Python does not enforce the annotations, and the records below do. Where
  the script would store a value of another kind in such a field, the model stops with
  \<open>OutsideModel\<close>: it says nothing about such a run. The same holds where a library
  function gets an argument that the model of that function does not cover.
\<close>

datatype py_error =
    KeyError string
  | TypeError
  | AttributeError
  | NameError
  | RuntimeError
  | ValueError
  | IOError
  | HTTPError int
  | ConnectionError
  | InvalidURL
  | KeyboardInterrupt
  | OutsideModel

text \<open>\<^verbatim>\<open>except IOError\<close> catches \<^verbatim>\<open>OSError\<close>; the exceptions of \<^verbatim>\<open>requests\<close> derive from it.\<close>

fun is_IOError :: "py_error \<Rightarrow> bool" where
  "is_IOError IOError = True"
| "is_IOError (HTTPError _) = True"
| "is_IOError ConnectionError = True"
| "is_IOError InvalidURL = True"
| "is_IOError _ = False"

text \<open>\<^verbatim>\<open>d[k]\<close> with a string key: only a dict can be subscripted with a string.\<close>

fun getitem :: "json \<Rightarrow> string \<Rightarrow> py_error + json" where
  "getitem (JDict kvs) k = (case map_of kvs k of None \<Rightarrow> Inl (KeyError k) | Some v \<Rightarrow> Inr v)"
| "getitem _ k = Inl TypeError"

text \<open>\<^verbatim>\<open>d[k1][k2]...\<close>, evaluated from the left.\<close>

fun getpath :: "json \<Rightarrow> string list \<Rightarrow> py_error + json" where
  "getpath d [] = Inr d"
| "getpath d (k # ks) = (case getitem d k of Inl e \<Rightarrow> Inl e | Inr v \<Rightarrow> getpath v ks)"

text \<open>
  Iterating a value (\<^verbatim>\<open>for x in v\<close>): a list gives its elements, a dict its keys, a string
  its characters; the other values are not iterable.
\<close>

fun py_iter :: "json \<Rightarrow> py_error + json list" where
  "py_iter (JList xs) = Inr xs"
| "py_iter (JDict kvs) = Inr (map (\<lambda>kv. JStr (fst kv)) kvs)"
| "py_iter (JStr s) = Inr (map (\<lambda>c. JStr [c]) s)"
| "py_iter _ = Inl TypeError"

section \<open>Sanitizing names\<close>

text \<open>
  \<^verbatim>\<open>str.isalnum\<close> on one character, for the code points below 256: the ASCII digits and
  letters, and in Latin-1 the letters, the superscript digits and the fractions.
\<close>

definition isalnum :: "char \<Rightarrow> bool" where
  "isalnum c =
     (let n = (of_char c :: nat) in
        (48 \<le> n \<and> n \<le> 57) \<or> (65 \<le> n \<and> n \<le> 90) \<or> (97 \<le> n \<and> n \<le> 122)
        \<or> n \<in> {170, 178, 179, 181, 185, 186, 188, 189, 190}
        \<or> (192 \<le> n \<and> n \<le> 214) \<or> (216 \<le> n \<and> n \<le> 246) \<or> (248 \<le> n \<and> n \<le> 255))"

text \<open>
  \<^verbatim>\<open>def sanitize_name(name):
    return ''.join(c for c in name if c.isalnum() or c in (' ', '_'))\<close>
\<close>

definition sanitize_name :: "string \<Rightarrow> string" where
  "sanitize_name s = filter (\<lambda>c. isalnum c \<or> c \<in> {CHR '' '', CHR ''_''}) s"

text \<open>
  The same function on an argument that is not a string. A number, a boolean or
  \<^verbatim>\<open>None\<close> cannot be iterated. The elements of a list (the keys of a dict) are kept whole
  when \<^verbatim>\<open>isalnum\<close> holds of them (non-empty, every character alphanumeric) or when
  they are \<^verbatim>\<open>' '\<close> or \<^verbatim>\<open>'_'\<close>; an element that is not a string has no \<^verbatim>\<open>isalnum\<close>.
\<close>

definition str_isalnum :: "string \<Rightarrow> bool" where
  "str_isalnum s = (s \<noteq> [] \<and> list_all isalnum s)"

fun sanitize_items :: "json list \<Rightarrow> py_error + string" where
  "sanitize_items [] = Inr []"
| "sanitize_items (JStr t # xs) =
     (case sanitize_items xs of
        Inl e \<Rightarrow> Inl e
      | Inr r \<Rightarrow> Inr ((if str_isalnum t \<or> t = '' '' \<or> t = ''_'' then t else []) @ r))"
| "sanitize_items (_ # xs) = Inl AttributeError"

fun sanitize_name_of :: "json \<Rightarrow> py_error + string" where
  "sanitize_name_of (JStr s) = Inr (sanitize_name s)"
| "sanitize_name_of (JList xs) = sanitize_items xs"
| "sanitize_name_of (JDict kvs) = sanitize_items (map (\<lambda>kv. JStr (fst kv)) kvs)"
| "sanitize_name_of _ = Inl TypeError"

section \<open>Records\<close>

text \<open>
  \<^verbatim>\<open>@dataclasses.dataclass
class Player:
    name: str
    rank: int\<close>

  The rank is kept as the value read: the API delivers a number with a fraction there,
  and the script never computes with it.
\<close>

record Player =
  name :: string
  rank :: json

text \<open>
  \<^verbatim>\<open>@dataclasses.dataclass
class GameInfo:
    id: int
    name: str
    white: Player
    black: Player\<close>
\<close>

record GameInfo =
  id' :: int
  name :: string
  white :: Player
  black :: Player

text \<open>\<^verbatim>\<open>Player.from_dict\<close>: the persisted shape, \<^verbatim>\<open>dict['name']\<close> then \<^verbatim>\<open>dict['rank']\<close>.\<close>

definition Player_from_dict :: "json \<Rightarrow> py_error + Player" where
  "Player_from_dict d =
     (case getitem d ''name'' of
        Inl e \<Rightarrow> Inl e
      | Inr n \<Rightarrow>
          (case getitem d ''rank'' of
             Inl e \<Rightarrow> Inl e
           | Inr r \<Rightarrow>
               (case n of
                  JStr s \<Rightarrow> Inr \<lparr>Player.name = s, rank = r\<rparr>
                | _ \<Rightarrow> Inl OutsideModel)))"

text \<open>\<^verbatim>\<open>Player.from_api_dict\<close>: the API shape, \<^verbatim>\<open>sanitize_name(dict['username'])\<close> then
  \<^verbatim>\<open>dict['ranking']\<close>.\<close>

definition Player_from_api_dict :: "json \<Rightarrow> py_error + Player" where
  "Player_from_api_dict d =
     (case getitem d ''username'' of
        Inl e \<Rightarrow> Inl e
      | Inr u \<Rightarrow>
          (case sanitize_name_of u of
             Inl e \<Rightarrow> Inl e
           | Inr s \<Rightarrow>
               (case getitem d ''ranking'' of
                  Inl e \<Rightarrow> Inl e
                | Inr r \<Rightarrow> Inr \<lparr>Player.name = s, rank = r\<rparr>)))"

text \<open>\<^verbatim>\<open>GameInfo.from_dict\<close>: the arguments are evaluated in the order written.\<close>

definition GameInfo_from_dict :: "json \<Rightarrow> py_error + GameInfo" where
  "GameInfo_from_dict d =
     (case getitem d ''id'' of
        Inl e \<Rightarrow> Inl e
      | Inr i \<Rightarrow>
     (case getitem d ''name'' of
        Inl e \<Rightarrow> Inl e
      | Inr n \<Rightarrow>
     (case sanitize_name_of n of
        Inl e \<Rightarrow> Inl e
      | Inr s \<Rightarrow>
     (case getitem d ''white'' of
        Inl e \<Rightarrow> Inl e
      | Inr wd \<Rightarrow>
     (case Player_from_dict wd of
        Inl e \<Rightarrow> Inl e
      | Inr w \<Rightarrow>
     (case getitem d ''black'' of
        Inl e \<Rightarrow> Inl e
      | Inr bd \<Rightarrow>
     (case Player_from_dict bd of
        Inl e \<Rightarrow> Inl e
      | Inr b \<Rightarrow>
     (case i of
        JInt k \<Rightarrow> Inr \<lparr>id' = k, name = s, white = w, black = b\<rparr>
      | _ \<Rightarrow> Inl OutsideModel))))))))"

text \<open>
  \<^verbatim>\<open>GameInfo.from_api_dict\<close>: the record is built first, each player with the rank of
  \<^verbatim>\<open>ranking\<close>; then both ranks are assigned from \<^verbatim>\<open>historical_ratings\<close>, white before black.
\<close>

definition GameInfo_from_api_dict :: "json \<Rightarrow> py_error + GameInfo" where
  "GameInfo_from_api_dict d =
     (case getitem d ''id'' of
        Inl e \<Rightarrow> Inl e
      | Inr i \<Rightarrow>
     (case getitem d ''name'' of
        Inl e \<Rightarrow> Inl e
      | Inr n \<Rightarrow>
     (case sanitize_name_of n of
        Inl e \<Rightarrow> Inl e
      | Inr s \<Rightarrow>
     (case getpath d [''players'', ''white''] of
        Inl e \<Rightarrow> Inl e
      | Inr wd \<Rightarrow>
     (case Player_from_api_dict wd of
        Inl e \<Rightarrow> Inl e
      | Inr w \<Rightarrow>
     (case getpath d [''players'', ''black''] of
        Inl e \<Rightarrow> Inl e
      | Inr bd \<Rightarrow>
     (case Player_from_api_dict bd of
        Inl e \<Rightarrow> Inl e
      | Inr b \<Rightarrow>
     (case i of
        JInt k \<Rightarrow>
          (let game = \<lparr>id' = k, name = s, white = w, black = b\<rparr> in
           (case getpath d [''historical_ratings'', ''white'', ''ratings'', ''overall'', ''rating''] of
              Inl e \<Rightarrow> Inl e
            | Inr rw \<Rightarrow>
                (let game = game\<lparr>white := (white game)\<lparr>rank := rw\<rparr>\<rparr> in
                 (case getpath d [''historical_ratings'', ''black'', ''ratings'', ''overall'', ''rating''] of
                    Inl e \<Rightarrow> Inl e
                  | Inr rb \<Rightarrow> Inr (game\<lparr>black := (black game)\<lparr>rank := rb\<rparr>\<rparr>)))))
      | _ \<Rightarrow> Inl OutsideModel))))))))"

section \<open>Text\<close>

text \<open>\<^verbatim>\<open>str(n)\<close> of an integer, as an f-string formats it: decimal, with a minus sign.\<close>

fun str_nat :: "nat \<Rightarrow> string" where
  "str_nat n =
     (if n < 10 then [''0123456789'' ! n]
      else str_nat (n div 10) @ [''0123456789'' ! (n mod 10)])"

declare str_nat.simps [simp del]

definition str_int :: "int \<Rightarrow> string" where
  "str_int i = (if i < 0 then CHR ''-'' # str_nat (nat (- i)) else str_nat (nat i))"

text \<open>
  \<^verbatim>\<open>int(s)\<close>: an optional sign and ASCII digits give the number. Python also accepts
  surrounding white space, underscores between digits and other Unicode digits; a string
  with such a character is left to \<open>OutsideModel\<close>. Every other string is a \<^verbatim>\<open>ValueError\<close>.
\<close>

definition is_digit :: "char \<Rightarrow> bool" where
  "is_digit c = (48 \<le> (of_char c :: nat) \<and> (of_char c :: nat) \<le> 57)"

definition digits_value :: "string \<Rightarrow> int" where
  "digits_value s = foldl (\<lambda>acc c. 10 * acc + (int (of_char c) - 48)) 0 s"

definition py_int :: "string \<Rightarrow> py_error + int" where
  "py_int s =
     (let body = (if s \<noteq> [] \<and> hd s \<in> {CHR ''+'', CHR ''-''} then tl s else s) in
      if body \<noteq> [] \<and> list_all is_digit body
      then Inr (if s \<noteq> [] \<and> hd s = CHR ''-'' then - digits_value body else digits_value body)
      else if list_ex (\<lambda>c. (of_char c :: nat) < 33 \<or> 126 < (of_char c :: nat) \<or> c = CHR ''_'') s
      then Inl OutsideModel
      else Inl ValueError)"

text \<open>
  \<^verbatim>\<open>json.dumps\<close> with its defaults: \<^verbatim>\<open>", "\<close> and \<^verbatim>\<open>": "\<close> as separators, and in a string every
  character outside the printable ASCII range, the quote and the backslash escaped.
\<close>

definition dumps_char :: "char \<Rightarrow> string" where
  "dumps_char c =
     (let n = (of_char c :: nat) in
      if n = 34 then [CHR 0x5C, CHR 0x22]
      else if n = 92 then [CHR 0x5C, CHR 0x5C]
      else if n = 10 then [CHR 0x5C, CHR ''n'']
      else if n = 13 then [CHR 0x5C, CHR ''r'']
      else if n = 9 then [CHR 0x5C, CHR ''t'']
      else if n = 12 then [CHR 0x5C, CHR ''f'']
      else if n = 8 then [CHR 0x5C, CHR ''b'']
      else if n < 32 \<or> 126 < n
      then [CHR 0x5C, CHR ''u'', CHR ''0'', CHR ''0'',
            ''0123456789abcdef'' ! (n div 16), ''0123456789abcdef'' ! (n mod 16)]
      else [c])"

definition dumps_str :: "string \<Rightarrow> string" where
  "dumps_str s = [CHR 0x22] @ concat (map dumps_char s) @ [CHR 0x22]"

fun join :: "string \<Rightarrow> string list \<Rightarrow> string" where
  "join sep [] = []"
| "join sep [x] = x"
| "join sep (x # y # ys) = x @ sep @ join sep (y # ys)"

fun json_dumps :: "json \<Rightarrow> string" where
  "json_dumps JNull = ''null''"
| "json_dumps (JBool b) = (if b then ''true'' else ''false'')"
| "json_dumps (JInt i) = str_int i"
| "json_dumps (JFloat t) = t"
| "json_dumps (JStr s) = dumps_str s"
| "json_dumps (JList xs) = ''['' @ join '', '' (map json_dumps xs) @ '']''"
| "json_dumps (JDict kvs) =
     ''{'' @ join '', '' (map (\<lambda>(k, v). dumps_str k @ '': '' @ json_dumps v) kvs) @ ''}''"

section \<open>The world outside the script\<close>

text \<open>
  The script reads and writes files below the working directory, sends HTTP requests and
  can be interrupted from the keyboard. The world is threaded through every function that
  touches it.

  \<^item> \<open>dirs\<close> are the directories and \<open>files\<close> the files that exist, by the path strings the
    script itself builds (\<^verbatim>\<open>./index/7.json\<close>). A file that cannot be opened is \<open>Denied\<close>.
  \<^item> \<open>incoming\<close> are the responses the server will give, one per request sent, in order;
    when none is left the connection fails. \<open>requested\<close> logs the requests sent and
    \<open>slept\<close> the delays slept after a status 429.
  \<^item> \<open>sigints\<close> schedules the keyboard interrupts: one entry per file opened for
    writing, in order; \<open>Some k\<close> interrupts that write after \<open>k\<close> characters, \<open>None\<close> and
    an exhausted schedule let it complete.

  The clock (\<^verbatim>\<open>time.monotonic\<close>, the half second between two requests) and the lines
  printed are not part of the world: they change no value the script computes.
\<close>

datatype fnode = Denied | Text string

record response =
  status_code :: int
  "text" :: string

record request =
  url :: string
  params :: "(string \<times> string) list"

record world =
  dirs :: "string list"
  files :: "(string \<times> fnode) list"
  incoming :: "response list"
  requested :: "request list"
  slept :: "nat list"
  sigints :: "nat option list"

text \<open>\<^verbatim>\<open>Path(path).exists()\<close>\<close>

definition path_exists :: "world \<Rightarrow> string \<Rightarrow> bool" where
  "path_exists w path = (path \<in> set (dirs w) \<or> map_of (files w) path \<noteq> None)"

text \<open>\<^verbatim>\<open>with open(path) as f: f.read()\<close>\<close>

definition read_text :: "world \<Rightarrow> string \<Rightarrow> py_error + string" where
  "read_text w path =
     (case map_of (files w) path of
        None \<Rightarrow> Inl IOError
      | Some Denied \<Rightarrow> Inl IOError
      | Some (Text s) \<Rightarrow> Inr s)"

text \<open>The directory part of a path: up to its last slash.\<close>

definition dirname :: "string \<Rightarrow> string" where
  "dirname path = rev (tl (dropWhile (\<lambda>c. c \<noteq> CHR ''/'') (rev path)))"

text \<open>
  \<^verbatim>\<open>with open(path, 'w') as f: f.write(data)\<close>. Opening fails when the directory is
  missing, when the file is denied and when the path is no file but a directory. Opening
  truncates the file; an interrupt leaves what was written before it.
\<close>

definition write_text :: "string \<Rightarrow> string \<Rightarrow> world \<Rightarrow> (py_error + unit) \<times> world" where
  "write_text path data w =
     (if dirname path \<notin> set (dirs w) \<or> map_of (files w) path = Some Denied
         \<or> (map_of (files w) path = None \<and> path \<in> set (dirs w))
      then (Inl IOError, w)
      else
        (case sigints w of
           Some k # rest \<Rightarrow>
             (Inl KeyboardInterrupt,
              w\<lparr>files := AList.update path (Text (take k data)) (files w), sigints := rest\<rparr>)
         | None # rest \<Rightarrow>
             (Inr (), w\<lparr>files := AList.update path (Text data) (files w), sigints := rest\<rparr>)
         | [] \<Rightarrow>
             (Inr (), w\<lparr>files := AList.update path (Text data) (files w)\<rparr>)))"

text \<open>
  \<^verbatim>\<open>Path(path).mkdir(exist_ok=True)\<close> where the parent directory exists, as it does in
  the script (the working directory for \<^verbatim>\<open>./index\<close>): an existing directory is accepted,
  an existing file is not.
\<close>

definition mkdir :: "string \<Rightarrow> world \<Rightarrow> (py_error + unit) \<times> world" where
  "mkdir path w =
     (if map_of (files w) path \<noteq> None then (Inl IOError, w)
      else if path \<in> set (dirs w) then (Inr (), w)
      else (Inr (), w\<lparr>dirs := dirs w @ [path]\<rparr>))"

text \<open>\<^verbatim>\<open>Path(path).mkdir(parents=True, exist_ok=True)\<close> for \<^verbatim>\<open>./games/<user_id>\<close>: the parent
  \<^verbatim>\<open>./games\<close> is made first.\<close>

definition mkdir_parents :: "string \<Rightarrow> world \<Rightarrow> (py_error + unit) \<times> world" where
  "mkdir_parents path w =
     (case mkdir (dirname path) w of
        (Inl e, w1) \<Rightarrow> (Inl e, w1)
      | (Inr _, w1) \<Rightarrow> mkdir path w1)"

text \<open>
  \<^verbatim>\<open>Path(path).delete()\<close>: \<^verbatim>\<open>pathlib.Path\<close> has no attribute \<^verbatim>\<open>delete\<close> (the method that removes a
  file is \<^verbatim>\<open>unlink\<close>), so evaluating the call raises and nothing is removed.
\<close>

definition Path_delete :: "string \<Rightarrow> world \<Rightarrow> (py_error + unit) \<times> world" where
  "Path_delete path w = (Inl AttributeError, w)"

text \<open>\<^verbatim>\<open>os.listdir(d)\<close>: the names of the files and directories directly in \<open>d\<close>.\<close>

definition entry_in :: "string \<Rightarrow> string \<Rightarrow> string option" where
  "entry_in d path =
     (let n = length d + 1 in
      if take n path = d @ ''/'' \<and> drop n path \<noteq> [] \<and> CHR ''/'' \<notin> set (drop n path)
      then Some (drop n path) else None)"

definition listdir :: "world \<Rightarrow> string \<Rightarrow> py_error + string list" where
  "listdir w d =
     (if d \<notin> set (dirs w) then Inl IOError
      else Inr (remdups (List.map_filter (entry_in d) (map fst (files w) @ dirs w))))"

section \<open>The HTTP client\<close>

text \<open>
  \<^verbatim>\<open>def throttled_get(*args, throttle_delay=10, **kwargs):
    ...
    result = requests.get(*args, **kwargs)
    ...
    if result.status_code == 429:
        time.sleep(throttle_delay)
        return throttled_get(*args, throttle_delay=throttle_delay*2, **kwargs)
    return result\<close>

  Every attempt sends the request and takes the next response. The retry after a 429 has
  no bound in the script; here it ends at the latest when the responses do.
\<close>

function throttled_get :: "nat \<Rightarrow> request \<Rightarrow> world \<Rightarrow> (py_error + response) \<times> world" where
  "throttled_get throttle_delay rq w =
     (case incoming w of
        [] \<Rightarrow> (Inl ConnectionError, w\<lparr>requested := requested w @ [rq]\<rparr>)
      | result # rest \<Rightarrow>
          (let w1 = w\<lparr>incoming := rest, requested := requested w @ [rq]\<rparr> in
           if status_code result = 429
           then throttled_get (throttle_delay * 2) rq (w1\<lparr>slept := slept w1 @ [throttle_delay]\<rparr>)
           else (Inr result, w1)))"
  by pat_completeness auto
termination
  by (relation "measure (\<lambda>(d, rq, w). length (incoming w))") auto

declare throttled_get.simps [simp del]

text \<open>\<^verbatim>\<open>Response.raise_for_status()\<close> raises for the statuses 400 to 599.\<close>

definition raise_for_status :: "response \<Rightarrow> py_error + unit" where
  "raise_for_status r =
     (if 400 \<le> status_code r \<and> status_code r < 600 then Inl (HTTPError (status_code r))
      else Inr ())"

section \<open>The index store\<close>

text \<open>A comprehension \<^verbatim>\<open>[f(x) for x in xs]\<close> whose \<open>f\<close> can raise: the first exception ends it.\<close>

fun map_result :: "('a \<Rightarrow> py_error + 'b) \<Rightarrow> 'a list \<Rightarrow> py_error + 'b list" where
  "map_result f [] = Inr []"
| "map_result f (x # xs) =
     (case f x of
        Inl e \<Rightarrow> Inl e
      | Inr y \<Rightarrow> (case map_result f xs of Inl e \<Rightarrow> Inl e | Inr ys \<Rightarrow> Inr (y # ys)))"

text \<open>
  \<^verbatim>\<open>def read_index(user_id):
    path = f'./index/{user_id}.json'
    try:
        with open(path) as f:
            data = f.read()
            data = json.loads(data)
            old_games = [GameInfo.from_dict(item) for item in data]
    except IOError:
        old_games = []
    return old_games\<close>

  \<^verbatim>\<open>json.loads\<close> is the parameter \<open>loads\<close>. The handler catches what \<^const>\<open>is_IOError\<close>
  accepts; every other exception raised in the block leaves the function.
\<close>

definition read_index :: "(string \<Rightarrow> py_error + json) \<Rightarrow> world \<Rightarrow> int \<Rightarrow> py_error + GameInfo list" where
  "read_index loads w user_id =
     (let path = ''./index/'' @ str_int user_id @ ''.json'';
          block =
            (case read_text w path of
               Inl e \<Rightarrow> Inl e
             | Inr s \<Rightarrow>
                 (case loads s of
                    Inl e \<Rightarrow> Inl e
                  | Inr data \<Rightarrow>
                      (case py_iter data of
                         Inl e \<Rightarrow> Inl e
                       | Inr items \<Rightarrow> map_result GameInfo_from_dict items)))
      in case block of
           Inl e \<Rightarrow> (if is_IOError e then Inr [] else Inl e)
         | Inr old_games \<Rightarrow> Inr old_games)"

text \<open>\<^verbatim>\<open>dataclasses.asdict(game)\<close>\<close>

definition asdict_Player :: "Player \<Rightarrow> json" where
  "asdict_Player p = JDict [(''name'', JStr (Player.name p)), (''rank'', rank p)]"

definition asdict :: "GameInfo \<Rightarrow> json" where
  "asdict g =
     JDict [(''id'', JInt (id' g)), (''name'', JStr (GameInfo.name g)),
            (''white'', asdict_Player (white g)), (''black'', asdict_Player (black g))]"

text \<open>
  \<^verbatim>\<open>def write_index(user_id, games):
    path = f'./index/{user_id}.json'
    data = json.dumps([dataclasses.asdict(game) for game in games])
    with open(path, 'w') as f:
        f.write(data)\<close>
\<close>

definition write_index :: "int \<Rightarrow> GameInfo list \<Rightarrow> world \<Rightarrow> (py_error + unit) \<times> world" where
  "write_index user_id games w =
     (let path = ''./index/'' @ str_int user_id @ ''.json'';
          data = json_dumps (JList (map asdict games))
      in write_text path data w)"

section \<open>Listing the games of a user\<close>

text \<open>
  \<^verbatim>\<open>def list_user_games(user_id):
    query = {...}
    data = throttled_get(f"https://online-go.com/api/v1/players/{user_id}/games", params=query)
    data.raise_for_status()
    data = data.json()
    while True:
        for game in data['results']:
            yield GameInfo.from_api_dict(game)
        if data['next'] is None:
            break
        data = throttled_get(data['next']).json()\<close>

  A generator: calling the function runs nothing. The generator object is either not
  started, or suspended at the \<^verbatim>\<open>yield\<close> with the items of the page still to come and the
  page \<^verbatim>\<open>data\<close>. \<open>games_next\<close> is \<^verbatim>\<open>next()\<close> on it: it runs the body to the next \<^verbatim>\<open>yield\<close>
  (\<open>Some\<close> of the game and the suspended generator), to the end of the body (\<open>None\<close>) or
  to an exception. \<^verbatim>\<open>Response.json()\<close> is \<open>loads\<close> on the text of the response; the
  exception it raises for a body that is not JSON is a \<^verbatim>\<open>ValueError\<close> too.
\<close>

datatype games_gen = Unstarted int | Suspended "json list" json

definition list_user_games :: "int \<Rightarrow> games_gen" where
  "list_user_games user_id = Unstarted user_id"

definition query :: "(string \<times> string) list" where
  "query = [(''page_size'', ''50''), (''source'', ''play''),
            (''ended__isnull'', ''false''), (''ordering'', ''-ended'')]"

text \<open>The first page: the request, \<^verbatim>\<open>raise_for_status\<close>, then \<^verbatim>\<open>json()\<close>.\<close>

definition first_page ::
  "(string \<Rightarrow> py_error + json) \<Rightarrow> int \<Rightarrow> world \<Rightarrow> (py_error + json) \<times> world" where
  "first_page loads user_id w =
     (case throttled_get 10
             \<lparr>url = ''https://online-go.com/api/v1/players/'' @ str_int user_id @ ''/games'',
              params = query\<rparr> w of
        (Inl e, w1) \<Rightarrow> (Inl e, w1)
      | (Inr r, w1) \<Rightarrow>
          (case raise_for_status r of
             Inl e \<Rightarrow> (Inl e, w1)
           | Inr _ \<Rightarrow> (loads (text r), w1)))"

text \<open>
  What \<^verbatim>\<open>requests.get\<close> sends: a URL with the scheme \<^verbatim>\<open>http\<close> or \<^verbatim>\<open>https\<close> and a host. For a
  URL with no scheme (a relative link, the empty string) it raises \<^verbatim>\<open>MissingSchema\<close> before
  anything is sent.
\<close>

definition is_http_url :: "string \<Rightarrow> bool" where
  "is_http_url u =
     (let rest = (if take 7 u = ''http://'' then drop 7 u
                  else if take 8 u = ''https://'' then drop 8 u else [])
      in rest \<noteq> [] \<and>
         (let n = (of_char (hd rest) :: nat) in
            (48 \<le> n \<and> n \<le> 57) \<or> (65 \<le> n \<and> n \<le> 90) \<or> (97 \<le> n \<and> n \<le> 122)))"

text \<open>
  A following page, \<^verbatim>\<open>throttled_get(data['next']).json()\<close>: the request, then \<^verbatim>\<open>json()\<close>; the
  status of the response is not looked at. The link is a string in the API. A link that
  can be sent is requested, and the network answers any such URL; a link with no colon
  has no scheme and raises; the model says nothing about any other link, nor about a
  value there that is not a string.
\<close>

definition next_page ::
  "(string \<Rightarrow> py_error + json) \<Rightarrow> json \<Rightarrow> world \<Rightarrow> (py_error + json) \<times> world" where
  "next_page loads link w =
     (case link of
        JStr u \<Rightarrow>
          if is_http_url u
          then (case throttled_get 10 \<lparr>url = u, params = []\<rparr> w of
                  (Inl e, w1) \<Rightarrow> (Inl e, w1)
                | (Inr r, w1) \<Rightarrow> (loads (text r), w1))
          else if CHR '':'' \<notin> set u then (Inl InvalidURL, w)
          else (Inl OutsideModel, w)
      | _ \<Rightarrow> (Inl OutsideModel, w))"

text \<open>\<^verbatim>\<open>for game in data['results']\<close>: the items the loop will go through.\<close>

definition page_items :: "json \<Rightarrow> py_error + json list" where
  "page_items data =
     (case getitem data ''results'' of Inl e \<Rightarrow> Inl e | Inr rs \<Rightarrow> py_iter rs)"

lemma throttled_get_Nil:
  "incoming w = [] \<Longrightarrow>
   throttled_get d rq w = (Inl ConnectionError, w\<lparr>requested := requested w @ [rq]\<rparr>)"
  by (subst throttled_get.simps) simp

lemma throttled_get_retry:
  "incoming w = r # rest \<Longrightarrow> status_code r = 429 \<Longrightarrow>
   throttled_get d rq w =
     throttled_get (d * 2) rq
       (w\<lparr>incoming := rest, requested := requested w @ [rq], slept := slept w @ [d]\<rparr>)"
  by (subst throttled_get.simps) (simp add: Let_def)

lemma throttled_get_result:
  "incoming w = r # rest \<Longrightarrow> status_code r \<noteq> 429 \<Longrightarrow>
   throttled_get d rq w = (Inr r, w\<lparr>incoming := rest, requested := requested w @ [rq]\<rparr>)"
  by (subst throttled_get.simps) (simp add: Let_def)

lemma throttled_get_incoming:
  "throttled_get d rq w = (Inr r, w') \<Longrightarrow> length (incoming w') < length (incoming w)"
proof (induction d rq w rule: throttled_get.induct)
  case (1 d rq w)
  show ?case
  proof (cases "incoming w")
    case Nil
    with "1.prems" show ?thesis by (simp add: throttled_get_Nil)
  next
    case (Cons result rest)
    show ?thesis
    proof (cases "status_code result = 429")
      case True
      with Cons "1.prems" "1.IH" [OF Cons refl True] show ?thesis
        by (simp add: throttled_get_retry)
    next
      case False
      with Cons "1.prems" show ?thesis
        by (auto simp: throttled_get_result)
    qed
  qed
qed

lemma first_page_incoming:
  "first_page loads u w = (Inr data, w') \<Longrightarrow> length (incoming w') < length (incoming w)"
  by (auto simp: first_page_def split: prod.splits sum.splits dest: throttled_get_incoming)

lemma next_page_incoming:
  "next_page loads link w = (Inr data, w') \<Longrightarrow> length (incoming w') < length (incoming w)"
  by (auto simp: next_page_def split: prod.splits sum.splits json.splits if_splits
      dest: throttled_get_incoming)

function games_next ::
  "(string \<Rightarrow> py_error + json) \<Rightarrow> games_gen \<Rightarrow> world
     \<Rightarrow> (py_error + (GameInfo \<times> games_gen) option) \<times> world" where
  "games_next loads (Unstarted user_id) w =
     (case first_page loads user_id w of
        (Inl e, w1) \<Rightarrow> (Inl e, w1)
      | (Inr data, w1) \<Rightarrow>
          (case page_items data of
             Inl e \<Rightarrow> (Inl e, w1)
           | Inr items \<Rightarrow> games_next loads (Suspended items data) w1))"
| "games_next loads (Suspended (game # items) data) w =
     (case GameInfo_from_api_dict game of
        Inl e \<Rightarrow> (Inl e, w)
      | Inr g \<Rightarrow> (Inr (Some (g, Suspended items data)), w))"
| "games_next loads (Suspended [] data) w =
     (case getitem data ''next'' of
        Inl e \<Rightarrow> (Inl e, w)
      | Inr link \<Rightarrow>
          if link = JNull then (Inr None, w)
          else
            (case next_page loads link w of
               (Inl e, w1) \<Rightarrow> (Inl e, w1)
             | (Inr data', w1) \<Rightarrow>
                 (case page_items data' of
                    Inl e \<Rightarrow> (Inl e, w1)
                  | Inr items \<Rightarrow> games_next loads (Suspended items data') w1)))"
  by pat_completeness auto
termination
  by (relation "measure (\<lambda>(loads, g, w). length (incoming w))")
    (auto dest: first_page_incoming [OF sym] next_page_incoming [OF sym])

section \<open>Building the index\<close>

text \<open>The items a suspended generator still holds from its page.\<close>

definition pending :: "games_gen \<Rightarrow> nat" where
  "pending g = (case g of Unstarted _ \<Rightarrow> 0 | Suspended items _ \<Rightarrow> length items)"

lemma games_next_decreases:
  "games_next loads g w = (Inr (Some (x, g')), w') \<Longrightarrow>
     length (incoming w') < length (incoming w)
     \<or> (length (incoming w') = length (incoming w) \<and> pending g' < pending g)"
proof (induction loads g w rule: games_next.induct)
  case (1 loads user_id w)
  then show ?case
    by (fastforce split: prod.splits sum.splits dest: first_page_incoming)
next
  case (2 loads game items data w)
  then show ?case
    by (auto simp: pending_def split: sum.splits)
next
  case (3 loads data w)
  then show ?case
    by (fastforce split: prod.splits sum.splits if_splits dest: next_page_incoming)
qed

text \<open>
  \<^verbatim>\<open>    new_games = []
    for idx, game in enumerate(games):
        if old_games and old_games[0].id == game.id:
            break
        ...
        new_games.append(game)\<close>

  The loop, from the state before an iteration. \<open>idx\<close> is \<open>None\<close> while the variable is
  unbound; \<^verbatim>\<open>enumerate\<close> counts from 0, so the next value is one more than the last. The
  result is the state in which the loop was left: \<open>idx\<close> and \<open>new_games\<close>.
\<close>

function build_loop ::
  "(string \<Rightarrow> py_error + json) \<Rightarrow> GameInfo list \<Rightarrow> nat option \<Rightarrow> GameInfo list
     \<Rightarrow> games_gen \<Rightarrow> world \<Rightarrow> (py_error + nat option \<times> GameInfo list) \<times> world" where
  "build_loop loads old_games idx new_games games w =
     (case games_next loads games w of
        (Inl e, w1) \<Rightarrow> (Inl e, w1)
      | (Inr None, w1) \<Rightarrow> (Inr (idx, new_games), w1)
      | (Inr (Some (game, games')), w1) \<Rightarrow>
          (let idx' = (case idx of None \<Rightarrow> 0 | Some i \<Rightarrow> i + 1) in
           if old_games \<noteq> [] \<and> id' (hd old_games) = id' game
           then (Inr (Some idx', new_games), w1)
           else build_loop loads old_games (Some idx') (new_games @ [game]) games' w1))"
  by pat_completeness auto
termination
  by (relation "measures [\<lambda>(loads, old_games, idx, new_games, games, w). length (incoming w),
                          \<lambda>(loads, old_games, idx, new_games, games, w). pending games]")
    (auto dest: games_next_decreases [OF sym])

declare build_loop.simps [simp del]

text \<open>
  \<^verbatim>\<open>def build_index(user_id):
    Path('./index').mkdir(exist_ok=True)
    old_games = read_index(user_id)
    games = list_user_games(user_id)
    new_games = []
    for idx, game in enumerate(games): ...
    all_games = new_games + old_games
    if idx != 0:
        write_index(user_id, all_games)
    return all_games\<close>

  Reading \<open>idx\<close> while it is unbound raises \<^verbatim>\<open>UnboundLocalError\<close>, a \<^verbatim>\<open>NameError\<close>.
\<close>

definition build_index ::
  "(string \<Rightarrow> py_error + json) \<Rightarrow> int \<Rightarrow> world \<Rightarrow> (py_error + GameInfo list) \<times> world" where
  "build_index loads user_id w =
     (case mkdir ''./index'' w of
        (Inl e, w0) \<Rightarrow> (Inl e, w0)
      | (Inr _, w0) \<Rightarrow>
     (case read_index loads w0 user_id of
        Inl e \<Rightarrow> (Inl e, w0)
      | Inr old_games \<Rightarrow>
     (case build_loop loads old_games None [] (list_user_games user_id) w0 of
        (Inl e, w1) \<Rightarrow> (Inl e, w1)
      | (Inr (idx, new_games), w1) \<Rightarrow>
          (let all_games = new_games @ old_games in
           case idx of
             None \<Rightarrow> (Inl NameError, w1)
           | Some i \<Rightarrow>
               if i \<noteq> 0
               then (case write_index user_id all_games w1 of
                       (Inl e, w2) \<Rightarrow> (Inl e, w2)
                     | (Inr _, w2) \<Rightarrow> (Inr all_games, w2))
               else (Inr all_games, w1)))))"

text \<open>
  \<^verbatim>\<open>def get_all_indices():
    files = [f for f in os.listdir('./index') if f.endswith('.json')]
    indices = {}
    for f in files:
        id = int(f[:-5])
        indices[id] = read_index(id)
    return indices\<close>

  The dict keeps its keys in insertion order; assigning to a key it has keeps the place.
\<close>

definition endswith :: "string \<Rightarrow> string \<Rightarrow> bool" where
  "endswith s ending = (length ending \<le> length s \<and> drop (length s - length ending) s = ending)"

fun collect_indices ::
  "(string \<Rightarrow> py_error + json) \<Rightarrow> world \<Rightarrow> string list \<Rightarrow> (int \<times> GameInfo list) list
     \<Rightarrow> py_error + (int \<times> GameInfo list) list" where
  "collect_indices loads w [] indices = Inr indices"
| "collect_indices loads w (f # fs) indices =
     (case py_int (take (length f - 5) f) of
        Inl e \<Rightarrow> Inl e
      | Inr i \<Rightarrow>
          (case read_index loads w i of
             Inl e \<Rightarrow> Inl e
           | Inr games \<Rightarrow> collect_indices loads w fs (AList.update i games indices)))"

definition get_all_indices ::
  "(string \<Rightarrow> py_error + json) \<Rightarrow> world \<Rightarrow> py_error + (int \<times> GameInfo list) list" where
  "get_all_indices loads w =
     (case listdir w ''./index'' of
        Inl e \<Rightarrow> Inl e
      | Inr names \<Rightarrow> collect_indices loads w (filter (\<lambda>f. endswith f ''.json'') names) [])"

section \<open>The archive loader\<close>

text \<open>
  \<^verbatim>\<open>def load_game(user_id, game_info):
    game_name = f'{game_info.id} {game_info.name} [{game_info.black.name} vs {game_info.white.name}]'
    path = f'./games/{user_id}/{game_name}.sgf'
    if Path(path).exists():
        return
    data = throttled_get(f'http://online-go.com/api/v1/games/{game_info.id}/sgf/')
    data.raise_for_status()
    data = data.text
    try:
        with open(path, 'w') as f:
            f.write(data)
    except KeyboardInterrupt:
        Path(path).delete()
        raise\<close>
\<close>

definition archive_path :: "int \<Rightarrow> GameInfo \<Rightarrow> string" where
  "archive_path user_id game_info =
     (let game_name = str_int (id' game_info) @ '' '' @ GameInfo.name game_info @ '' [''
            @ Player.name (black game_info) @ '' vs '' @ Player.name (white game_info) @ '']''
      in ''./games/'' @ str_int user_id @ ''/'' @ game_name @ ''.sgf'')"

definition load_game :: "int \<Rightarrow> GameInfo \<Rightarrow> world \<Rightarrow> (py_error + unit) \<times> world" where
  "load_game user_id game_info w =
     (let path = archive_path user_id game_info in
      if path_exists w path then (Inr (), w)
      else
        (case throttled_get 10
                \<lparr>url = ''http://online-go.com/api/v1/games/'' @ str_int (id' game_info) @ ''/sgf/'',
                 params = []\<rparr> w of
           (Inl e, w1) \<Rightarrow> (Inl e, w1)
         | (Inr r, w1) \<Rightarrow>
             (case raise_for_status r of
                Inl e \<Rightarrow> (Inl e, w1)
              | Inr _ \<Rightarrow>
                  (case write_text path (text r) w1 of
                     (Inl e, w2) \<Rightarrow>
                       if e = KeyboardInterrupt
                       then (case Path_delete path w2 of
                               (Inl e', w3) \<Rightarrow> (Inl e', w3)
                             | (Inr _, w3) \<Rightarrow> (Inl KeyboardInterrupt, w3))
                       else (Inl e, w2)
                   | (Inr _, w2) \<Rightarrow> (Inr (), w2)))))"

text \<open>
  \<^verbatim>\<open>def take(iterator, count):
    iterator = iter(iterator)
    if count is None:
        yield from iterator
    for _ in range(count):
        yield next(iterator)\<close>

  A generator over a list in memory, with no effect of its own: it is given by the items
  it yields and by how it ends after them. With \<^verbatim>\<open>count\<close> \<^verbatim>\<open>None\<close> it yields every item and
  then evaluates \<^verbatim>\<open>range(None)\<close>, a \<^verbatim>\<open>TypeError\<close>. With more asked than there is, \<^verbatim>\<open>next\<close> raises
  \<^verbatim>\<open>StopIteration\<close> inside the generator, which Python turns into a \<^verbatim>\<open>RuntimeError\<close> (from
  version 3.7, the first with the \<^verbatim>\<open>dataclasses\<close> module the script imports). A negative
  count is an empty range.
\<close>

definition take_py :: "'a list \<Rightarrow> int option \<Rightarrow> 'a list \<times> py_error option" where
  "take_py iterator count =
     (case count of
        None \<Rightarrow> (iterator, Some TypeError)
      | Some n \<Rightarrow>
          if n \<le> int (length iterator) then (take (nat n) iterator, None)
          else (iterator, Some RuntimeError))"

text \<open>
  \<^verbatim>\<open>        for game in take(games, limit):
            load_game(user_id, game)\<close>
\<close>

fun load_each :: "int \<Rightarrow> GameInfo list \<Rightarrow> world \<Rightarrow> (py_error + unit) \<times> world" where
  "load_each user_id [] w = (Inr (), w)"
| "load_each user_id (game # games) w =
     (case load_game user_id game w of
        (Inl e, w1) \<Rightarrow> (Inl e, w1)
      | (Inr _, w1) \<Rightarrow> load_each user_id games w1)"

definition load_taken :: "int \<Rightarrow> GameInfo list \<Rightarrow> int option \<Rightarrow> world \<Rightarrow> (py_error + unit) \<times> world" where
  "load_taken user_id games limit w =
     (case take_py games limit of
        (items, ending) \<Rightarrow>
          (case load_each user_id items w of
             (Inl e, w1) \<Rightarrow> (Inl e, w1)
           | (Inr _, w1) \<Rightarrow> (case ending of Some e \<Rightarrow> (Inl e, w1) | None \<Rightarrow> (Inr (), w1))))"

text \<open>
  \<^verbatim>\<open>def load_all_games(limit, added=None):
    indices = get_all_indices()
    for user_id in indices:
        if added and user_id in added:
            continue
        indices[user_id] = build_index(user_id)
    for user_id, games in indices.items():
        Path(f'./games/{user_id}').mkdir(parents=True, exist_ok=True)
        for game in take(games, limit):
            load_game(user_id, game)\<close>
\<close>

fun rebuild_indices ::
  "(string \<Rightarrow> py_error + json) \<Rightarrow> int list option \<Rightarrow> int list \<Rightarrow> (int \<times> GameInfo list) list
     \<Rightarrow> world \<Rightarrow> (py_error + (int \<times> GameInfo list) list) \<times> world" where
  "rebuild_indices loads added [] indices w = (Inr indices, w)"
| "rebuild_indices loads added (user_id # rest) indices w =
     (if (case added of None \<Rightarrow> False | Some a \<Rightarrow> a \<noteq> [] \<and> user_id \<in> set a)
      then rebuild_indices loads added rest indices w
      else
        (case build_index loads user_id w of
           (Inl e, w1) \<Rightarrow> (Inl e, w1)
         | (Inr games, w1) \<Rightarrow>
             rebuild_indices loads added rest (AList.update user_id games indices) w1))"

fun load_indices ::
  "int option \<Rightarrow> (int \<times> GameInfo list) list \<Rightarrow> world \<Rightarrow> (py_error + unit) \<times> world" where
  "load_indices limit [] w = (Inr (), w)"
| "load_indices limit ((user_id, games) # rest) w =
     (case mkdir_parents (''./games/'' @ str_int user_id) w of
        (Inl e, w1) \<Rightarrow> (Inl e, w1)
      | (Inr _, w1) \<Rightarrow>
          (case load_taken user_id games limit w1 of
             (Inl e, w2) \<Rightarrow> (Inl e, w2)
           | (Inr _, w2) \<Rightarrow> load_indices limit rest w2))"

definition load_all_games ::
  "(string \<Rightarrow> py_error + json) \<Rightarrow> int option \<Rightarrow> int list option \<Rightarrow> world
     \<Rightarrow> (py_error + unit) \<times> world" where
  "load_all_games loads limit added w =
     (case get_all_indices loads w of
        Inl e \<Rightarrow> (Inl e, w)
      | Inr indices \<Rightarrow>
          (case rebuild_indices loads added (map fst indices) indices w of
             (Inl e, w1) \<Rightarrow> (Inl e, w1)
           | (Inr indices', w1) \<Rightarrow> load_indices limit indices' w1))"

text \<open>
  \<^verbatim>\<open>list(games)\<close>: the whole sequence a generator yields when nothing stops it, which is
  the fetched history of the user.
\<close>

function games_list ::
  "(string \<Rightarrow> py_error + json) \<Rightarrow> games_gen \<Rightarrow> world \<Rightarrow> (py_error + GameInfo list) \<times> world" where
  "games_list loads games w =
     (case games_next loads games w of
        (Inl e, w1) \<Rightarrow> (Inl e, w1)
      | (Inr None, w1) \<Rightarrow> (Inr [], w1)
      | (Inr (Some (game, games')), w1) \<Rightarrow>
          (case games_list loads games' w1 of
             (Inl e, w2) \<Rightarrow> (Inl e, w2)
           | (Inr rest, w2) \<Rightarrow> (Inr (game # rest), w2)))"
  by pat_completeness auto
termination
  by (relation "measures [\<lambda>(loads, games, w). length (incoming w),
                          \<lambda>(loads, games, w). pending games]")
    (auto dest: games_next_decreases [OF sym])

declare games_list.simps [simp del]

section \<open>What the network leaves alone\<close>

text \<open>The part of the world a request cannot change: directories, files and signals.\<close>

definition disk :: "world \<Rightarrow> string list \<times> (string \<times> fnode) list \<times> nat option list" where
  "disk w = (dirs w, files w, sigints w)"

lemma throttled_get_disk: "throttled_get d rq w = (r, w') \<Longrightarrow> disk w' = disk w"
proof (induction d rq w rule: throttled_get.induct)
  case (1 d rq w)
  show ?case
  proof (cases "incoming w")
    case Nil
    with "1.prems" show ?thesis by (auto simp: throttled_get_Nil disk_def)
  next
    case (Cons result rest)
    show ?thesis
    proof (cases "status_code result = 429")
      case True
      with Cons "1.prems" "1.IH" [OF Cons refl True] show ?thesis
        by (simp add: throttled_get_retry disk_def)
    next
      case False
      with Cons "1.prems" show ?thesis
        by (auto simp: throttled_get_result disk_def)
    qed
  qed
qed

lemma first_page_disk: "first_page loads u w = (r, w') \<Longrightarrow> disk w' = disk w"
  by (auto simp: first_page_def split: prod.splits sum.splits dest: throttled_get_disk)

lemma next_page_disk: "next_page loads link w = (r, w') \<Longrightarrow> disk w' = disk w"
  by (auto simp: next_page_def split: prod.splits sum.splits json.splits if_splits
      dest: throttled_get_disk)

lemma games_next_disk: "games_next loads g w = (r, w') \<Longrightarrow> disk w' = disk w"
proof (induction loads g w arbitrary: r w' rule: games_next.induct)
  case (1 loads user_id w)
  then show ?case
    by (fastforce split: prod.splits sum.splits dest: first_page_disk)
next
  case (2 loads game items data w)
  then show ?case by (auto split: sum.splits)
next
  case (3 loads data w)
  then show ?case
    by (fastforce split: prod.splits sum.splits if_splits dest: next_page_disk)
qed

section \<open>The loop of the index builder, step by step\<close>

definition next_idx :: "nat option \<Rightarrow> nat" where
  "next_idx idx = (case idx of None \<Rightarrow> 0 | Some i \<Rightarrow> i + 1)"

lemma build_loop_raise:
  "games_next loads g w = (Inl e, w1) \<Longrightarrow> build_loop loads old idx new g w = (Inl e, w1)"
  by (subst build_loop.simps) simp

lemma build_loop_exhausted:
  "games_next loads g w = (Inr None, w1) \<Longrightarrow>
   build_loop loads old idx new g w = (Inr (idx, new), w1)"
  by (subst build_loop.simps) simp

lemma build_loop_break:
  "games_next loads g w = (Inr (Some (game, g')), w1) \<Longrightarrow>
   old \<noteq> [] \<Longrightarrow> id' (hd old) = id' game \<Longrightarrow>
   build_loop loads old idx new g w = (Inr (Some (next_idx idx), new), w1)"
  by (subst build_loop.simps) (simp add: next_idx_def)

lemma build_loop_append:
  "games_next loads g w = (Inr (Some (game, g')), w1) \<Longrightarrow>
   old = [] \<or> id' (hd old) \<noteq> id' game \<Longrightarrow>
   build_loop loads old idx new g w =
     build_loop loads old (Some (next_idx idx)) (new @ [game]) g' w1"
  by (subst build_loop.simps) (auto simp: next_idx_def)

lemma games_list_Cons:
  "games_list loads g w = (Inr (x # xs), w9) \<Longrightarrow>
   \<exists>g' w1. games_next loads g w = (Inr (Some (x, g')), w1)
          \<and> games_list loads g' w1 = (Inr xs, w9)"
  by (subst (asm) games_list.simps) (auto split: prod.splits sum.splits option.splits)

lemma games_list_Nil:
  "games_list loads g w = (Inr [], w9) \<Longrightarrow> games_next loads g w = (Inr None, w9)"
  by (subst (asm) games_list.simps) (auto split: prod.splits sum.splits option.splits)


text \<open>The loop on a fetched sequence that never reaches the head of the old index.\<close>

lemma build_loop_runs_out:
  assumes "games_list loads g w = (Inr P, w9)"
    and "old = [] \<or> (\<forall>y \<in> set P. id' y \<noteq> id' (hd old))"
  shows "build_loop loads old idx new g w
           = (Inr (if P = [] then idx else Some (next_idx idx + length P - 1), new @ P), w9)
         \<and> disk w9 = disk w"
  using assms
proof (induction P arbitrary: g w idx new)
  case Nil
  from games_list_Nil [OF Nil.prems(1)] have n: "games_next loads g w = (Inr None, w9)" .
  have "build_loop loads old idx new g w = (Inr (idx, new), w9)"
    using n by (simp add: build_loop_exhausted)
  moreover have "disk w9 = disk w" by (rule games_next_disk [OF n])
  ultimately show ?case by simp
next
  case (Cons y P)
  from games_list_Cons [OF Cons.prems(1)] obtain g' w1
    where n: "games_next loads g w = (Inr (Some (y, g')), w1)"
      and l: "games_list loads g' w1 = (Inr P, w9)" by blast
  from Cons.prems(2) have ne: "old = [] \<or> id' (hd old) \<noteq> id' y" by auto
  from Cons.prems(2) have others: "old = [] \<or> (\<forall>y \<in> set P. id' y \<noteq> id' (hd old))"
    by auto
  have step: "build_loop loads old idx new g w =
      build_loop loads old (Some (next_idx idx)) (new @ [y]) g' w1"
    using n ne by (rule build_loop_append)
  from Cons.IH [OF l others, of "Some (next_idx idx)" "new @ [y]"]
  have b: "build_loop loads old (Some (next_idx idx)) (new @ [y]) g' w1
      = (Inr (if P = [] then Some (next_idx idx)
              else Some (next_idx (Some (next_idx idx)) + length P - 1), (new @ [y]) @ P), w9)"
    and d: "disk w9 = disk w1" by simp_all
  have i: "(if P = [] then Some (next_idx idx)
            else Some (next_idx (Some (next_idx idx)) + length P - 1))
          = Some (next_idx idx + length (y # P) - 1)"
    by (simp add: next_idx_def)
  have "build_loop loads old idx new g w
          = (Inr (Some (next_idx idx + length (y # P) - 1), new @ y # P), w9)"
    using step b i by simp
  moreover have "disk w9 = disk w" using d games_next_disk [OF n] by simp
  ultimately show ?case by simp
qed

section \<open>Running the model on concrete worlds\<close>

text \<open>
  \<^verbatim>\<open>json.loads\<close> on the texts that \<^verbatim>\<open>json.dumps\<close> writes for the given documents, where it
  returns the document; every other text is rejected, which is right for the texts below
  that are not JSON.
\<close>

definition loads_of :: "json list \<Rightarrow> string \<Rightarrow> py_error + json" where
  "loads_of docs s =
     (case find (\<lambda>v. json_dumps v = s) docs of Some v \<Rightarrow> Inr v | None \<Rightarrow> Inl ValueError)"

lemma loads_of_first: "loads_of (v # docs) (json_dumps v) = Inr v"
  by (simp add: loads_of_def)

text \<open>An item of the API list and the record built from it, by the id of the game.\<close>

definition api_item_of :: "int \<Rightarrow> json" where
  "api_item_of i = JDict
     [(''id'', JInt i), (''name'', JStr ''g''),
      (''players'', JDict
         [(''white'', JDict [(''username'', JStr ''w''), (''ranking'', JInt 1)]),
          (''black'', JDict [(''username'', JStr ''b''), (''ranking'', JInt 2)])]),
      (''historical_ratings'', JDict
         [(''white'', JDict [(''ratings'', JDict [(''overall'', JDict [(''rating'', JInt 3)])])]),
          (''black'', JDict [(''ratings'', JDict [(''overall'', JDict [(''rating'', JInt 4)])])])])]"

definition game_of :: "int \<Rightarrow> GameInfo" where
  "game_of i = \<lparr>id' = i, name = ''g'',
       white = \<lparr>Player.name = ''w'', rank = JInt 3\<rparr>,
       black = \<lparr>Player.name = ''b'', rank = JInt 4\<rparr>\<rparr>"

definition page_of :: "json list \<Rightarrow> json \<Rightarrow> json" where
  "page_of items link = JDict [(''results'', JList items), (''next'', link)]"

definition response_of :: "int \<Rightarrow> string \<Rightarrow> response" where
  "response_of status body = \<lparr>status_code = status, text = body\<rparr>"

definition world_of :: "string list \<Rightarrow> (string \<times> fnode) list \<Rightarrow> response list \<Rightarrow> world" where
  "world_of ds fs rs = \<lparr>dirs = ds, files = fs, incoming = rs, requested = [],
                        slept = [], sigints = []\<rparr>"

lemma from_api_item_of: "GameInfo_from_api_dict (api_item_of i) = Inr (game_of i)"
  by (simp add: api_item_of_def game_of_def GameInfo_from_api_dict_def Player_from_api_dict_def
      sanitize_name_def isalnum_def)

lemma from_dict_game_of: "GameInfo_from_dict (asdict (game_of i)) = Inr (game_of i)"
  by (simp add: asdict_def asdict_Player_def game_of_def GameInfo_from_dict_def
      Player_from_dict_def sanitize_name_def isalnum_def)


lemma dumps_list_not_dict: "json_dumps (JList xs) \<noteq> json_dumps (JDict kvs)"
  by simp

lemma map_result_api_items:
  "map_result GameInfo_from_api_dict (map api_item_of ids) = Inr (map game_of ids)"
  by (induction ids) (simp_all add: from_api_item_of)

lemma map_result_index_items:
  "map_result GameInfo_from_dict (map (\<lambda>i. asdict (game_of i)) ids) = Inr (map game_of ids)"
  by (induction ids) (simp_all add: from_dict_game_of)

section \<open>Paths\<close>

lemma str_nat_digits: "set (str_nat n) \<subseteq> set ''0123456789''"
proof (induction n rule: str_nat.induct)
  case (1 n)
  have d: "''0123456789'' ! k \<in> set ''0123456789''" if "k < 10" for k
    using that by (intro nth_mem) simp
  show ?case
  proof (cases "n < 10")
    case True
    then show ?thesis using d [of n] by (subst str_nat.simps) simp
  next
    case False
    have "n mod 10 < 10" by simp
    with False "1.IH" d [of "n mod 10"] show ?thesis
      by (subst str_nat.simps) simp
  qed
qed

lemma str_int_no_slash: "CHR ''/'' \<notin> set (str_int i)"
  using str_nat_digits [of "nat i"] str_nat_digits [of "nat (- i)"]
  by (auto simp: str_int_def)

lemma dirname_file: "CHR ''/'' \<notin> set f \<Longrightarrow> dirname (d @ ''/'' @ f) = d"
proof -
  assume "CHR ''/'' \<notin> set f"
  then have "dropWhile (\<lambda>c. c \<noteq> CHR ''/'') (rev f @ CHR ''/'' # rev d) = CHR ''/'' # rev d"
    by (subst dropWhile_append2) auto
  then show ?thesis by (simp add: dirname_def)
qed

lemma dirname_index: "dirname (''./index/'' @ str_int u @ ''.json'') = ''./index''"
  using dirname_file [of "str_int u @ ''.json''" "''./index''"] str_int_no_slash [of u]
  by simp

section \<open>Files and directories\<close>


lemma write_text_ok:
  "dirname path \<in> set (dirs w) \<Longrightarrow> map_of (files w) path = Some (Text s) \<or>
     (map_of (files w) path = None \<and> path \<notin> set (dirs w)) \<Longrightarrow> sigints w = [] \<Longrightarrow>
   write_text path data w = (Inr (), w\<lparr>files := AList.update path (Text data) (files w)\<rparr>)"
  by (auto simp: write_text_def)


section \<open>Pages\<close>

lemma first_page_ok:
  "incoming w = r # rest \<Longrightarrow> status_code r \<noteq> 429 \<Longrightarrow>
   \<not> (400 \<le> status_code r \<and> status_code r < 600) \<Longrightarrow>
   first_page loads u w =
     (loads (text r),
      w\<lparr>incoming := rest,
        requested := requested w @
          [\<lparr>url = ''https://online-go.com/api/v1/players/'' @ str_int u @ ''/games'',
            params = query\<rparr>]\<rparr>)"
  by (auto simp: first_page_def throttled_get_result raise_for_status_def)

lemma next_page_ok:
  "incoming w = r # rest \<Longrightarrow> status_code r \<noteq> 429 \<Longrightarrow> is_http_url u \<Longrightarrow>
   next_page loads (JStr u) w =
     (loads (text r),
      w\<lparr>incoming := rest, requested := requested w @ [\<lparr>url = u, params = []\<rparr>]\<rparr>)"
  by (simp add: next_page_def throttled_get_result)

lemma games_list_raise:
  "games_next loads g w = (Inl e, w1) \<Longrightarrow> games_list loads g w = (Inl e, w1)"
  by (subst games_list.simps) simp

lemma games_list_end:
  "games_next loads g w = (Inr None, w1) \<Longrightarrow> games_list loads g w = (Inr [], w1)"
  by (subst games_list.simps) simp

lemma games_list_step:
  "games_next loads g w = (Inr (Some (x, g')), w1) \<Longrightarrow>
   games_list loads g' w1 = (Inr xs, w9) \<Longrightarrow>
   games_list loads g w = (Inr (x # xs), w9)"
  by (subst games_list.simps) simp

text \<open>The items of a page, then what follows the page.\<close>

lemma games_list_items:
  "map_result GameInfo_from_api_dict items = Inr gs \<Longrightarrow>
   games_list loads (Suspended [] data) w = (Inr gs', w9) \<Longrightarrow>
   games_list loads (Suspended items data) w = (Inr (gs @ gs'), w9)"
proof (induction items arbitrary: gs)
  case Nil
  then show ?case by simp
next
  case (Cons item items)
  from Cons.prems(1) obtain x xs where x: "GameInfo_from_api_dict item = Inr x"
    and xs: "map_result GameInfo_from_api_dict items = Inr xs" and gs: "gs = x # xs"
    by (auto split: sum.splits)
  have "games_next loads (Suspended (item # items) data) w
          = (Inr (Some (x, Suspended items data)), w)"
    using x by simp
  from games_list_step [OF this Cons.IH [OF xs Cons.prems(2)]] gs show ?case by simp
qed

lemma games_list_last_page:
  assumes "map_result GameInfo_from_api_dict items = Inr gs"
    and "getitem data ''next'' = Inr JNull"
  shows "games_list loads (Suspended items data) w = (Inr gs, w)"
proof -
  have "games_next loads (Suspended [] data) w = (Inr None, w)"
    using assms(2) by simp
  from games_list_items [OF assms(1) games_list_end [OF this]] show ?thesis by simp
qed

lemma games_list_next_page:
  assumes "map_result GameInfo_from_api_dict items = Inr gs"
    and "getitem data ''next'' = Inr link" and "link \<noteq> JNull"
    and "next_page loads link w = (Inr data', w1)"
    and "page_items data' = Inr items'"
    and "games_list loads (Suspended items' data') w1 = (Inr gs', w9)"
  shows "games_list loads (Suspended items data) w = (Inr (gs @ gs'), w9)"
proof -
  have n: "games_next loads (Suspended [] data) w = games_next loads (Suspended items' data') w1"
    using assms(2-5) by simp
  have "games_list loads (Suspended [] data) w = games_list loads (Suspended items' data') w1"
    by (subst games_list.simps, subst n, subst games_list.simps [symmetric]) simp
  with assms(6) have "games_list loads (Suspended [] data) w = (Inr gs', w9)" by simp
  from games_list_items [OF assms(1) this] show ?thesis .
qed

lemma games_list_first_page:
  assumes "first_page loads u w = (Inr data, w1)"
    and "page_items data = Inr items"
  shows "games_list loads (list_user_games u) w = games_list loads (Suspended items data) w1"
proof -
  have n: "games_next loads (Unstarted u) w = games_next loads (Suspended items data) w1"
    using assms by simp
  show ?thesis unfolding list_user_games_def
    by (subst games_list.simps, subst n, subst games_list.simps [symmetric]) simp
qed

section \<open>The index builder on a fetched sequence\<close>

text \<open>
  The fetched sequence is \<open>P\<close>, the prior index is \<open>old\<close>. When no game of \<open>P\<close> has the id
  of the first game of \<open>old\<close>, the loop runs to the end of \<open>P\<close> and \<open>idx\<close> is left at the
  last position, or unbound when \<open>P\<close> is empty.
\<close>

lemma build_index_no_games:
  assumes "mkdir ''./index'' w = (Inr (), w0)"
    and "read_index loads w0 u = Inr old"
    and "games_list loads (list_user_games u) w0 = (Inr [], w9)"
  shows "build_index loads u w = (Inl NameError, w9)"
proof -
  from build_loop_runs_out [OF assms(3), of old None "[]"]
  have "build_loop loads old None [] (list_user_games u) w0 = (Inr (None, []), w9)"
    by simp
  with assms(1,2) show ?thesis by (simp add: build_index_def)
qed

lemma build_index_one_game:
  assumes "mkdir ''./index'' w = (Inr (), w0)"
    and "read_index loads w0 u = Inr old"
    and "games_list loads (list_user_games u) w0 = (Inr [x], w9)"
    and "old = [] \<or> id' x \<noteq> id' (hd old)"
  shows "build_index loads u w = (Inr (x # old), w9) \<and> disk w9 = disk w0"
proof -
  from assms(4) have "old = [] \<or> (\<forall>y \<in> set [x]. id' y \<noteq> id' (hd old))" by simp
  from build_loop_runs_out [OF assms(3) this, of None "[]"]
  have "build_loop loads old None [] (list_user_games u) w0 = (Inr (Some 0, [x]), w9)"
    and "disk w9 = disk w0"
    by (simp_all add: next_idx_def)
  with assms(1,2) show ?thesis by (simp add: build_index_def)
qed

lemma build_index_many_games:
  assumes "mkdir ''./index'' w = (Inr (), w0)"
    and "read_index loads w0 u = Inr old"
    and "games_list loads (list_user_games u) w0 = (Inr P, w9)"
    and "old = [] \<or> (\<forall>y \<in> set P. id' y \<noteq> id' (hd old))"
    and "2 \<le> length P"
  shows "build_index loads u w =
           (case write_index u (P @ old) w9 of
              (Inl e, w2) \<Rightarrow> (Inl e, w2)
            | (Inr _, w2) \<Rightarrow> (Inr (P @ old), w2))"
proof -
  from assms(5) have ne: "P \<noteq> []" by auto
  from build_loop_runs_out [OF assms(3,4), of None "[]"] ne
  have "build_loop loads old None [] (list_user_games u) w0
          = (Inr (Some (length P - 1), P), w9)"
    by (simp add: next_idx_def)
  moreover from assms(5) have "length P - 1 \<noteq> 0" by simp
  ultimately show ?thesis using assms(1,2) by (simp add: build_index_def Let_def)
qed


text \<open>Writing the index of a user whose index file was read, with no interrupt pending.\<close>

lemma write_index_ok:
  assumes "''./index'' \<in> set (dirs w)"
    and "map_of (files w) (''./index/'' @ str_int u @ ''.json'') = Some (Text s)
         \<or> (map_of (files w) (''./index/'' @ str_int u @ ''.json'') = None
            \<and> ''./index/'' @ str_int u @ ''.json'' \<notin> set (dirs w))"
    and "sigints w = []"
  shows "write_index u games w =
           (Inr (), w\<lparr>files := AList.update (''./index/'' @ str_int u @ ''.json'')
                                 (Text (json_dumps (JList (map asdict games)))) (files w)\<rparr>)"
proof -
  have "dirname (''./index/'' @ str_int u @ ''.json'') \<in> set (dirs w)"
    using assms(1) by (simp only: dirname_index)
  from write_text_ok [OF this assms(2,3)] show ?thesis
    by (simp add: write_index_def Let_def)
qed

section \<open>Properties of the sanitizer\<close>

lemma sanitize_name_chars:
  "c \<in> set (sanitize_name s) \<Longrightarrow> isalnum c \<or> c = CHR '' '' \<or> c = CHR ''_''"
  by (auto simp: sanitize_name_def)

lemma sanitize_name_subseq: "subseq (sanitize_name s) s"
  by (simp add: sanitize_name_def)

text \<open>
  Claim C9. For every input string, the result of \<open>sanitize_name\<close> contains only
  alphanumeric characters, spaces and underscores, and it is a subsequence of the input:
  the kept characters appear in the input in the same order, none added, none changed.
\<close>

theorem sanitize_name_sound:
  "(\<forall>c \<in> set (sanitize_name s). isalnum c \<or> c = CHR '' '' \<or> c = CHR ''_'')
   \<and> subseq (sanitize_name s) s"
  using sanitize_name_chars sanitize_name_subseq by blast

theorem sanitize_name_sound_witness:
  "sanitize_name ''a-b c_d!'' = ''ab c_d''
   \<and> list_all (\<lambda>c. isalnum c \<or> c = CHR '' '' \<or> c = CHR ''_'') (sanitize_name ''a-b c_d!'')
   \<and> subseq (sanitize_name ''a-b c_d!'') ''a-b c_d!''"
proof -
  have "sanitize_name ''a-b c_d!'' = ''ab c_d''"
    by (simp add: sanitize_name_def isalnum_def)
  then show ?thesis
    using sanitize_name_sound [of "''a-b c_d!''"] by (simp add: list_all_iff)
qed

section \<open>Properties of the API constructor\<close>

lemma Player_from_api_dict_iff:
  "Player_from_api_dict d = Inr p \<longleftrightarrow>
     (\<exists>u. getitem d ''username'' = Inr u \<and> sanitize_name_of u = Inr (Player.name p))
     \<and> getitem d ''ranking'' = Inr (rank p)"
  by (cases p) (auto simp: Player_from_api_dict_def split: sum.splits)

lemma getpath_players:
  "getpath d [''players'', c, k] = Inr v \<longleftrightarrow>
     (\<exists>pd. getpath d [''players'', c] = Inr pd \<and> getitem pd k = Inr v)"
  by (auto split: sum.splits)

text \<open>
  Claim C8. The API constructor builds the record \<open>g\<close> from a list item exactly when the
  item has the fields the constructor reads and \<open>g\<close> is made of them as follows: the rank
  of each colour is the value at \<^verbatim>\<open>historical_ratings.<colour>.ratings.overall.rating\<close>; the
  field \<^verbatim>\<open>ranking\<close> of each player is there and read, and its value is overwritten; the name
  of each player is the sanitized \<^verbatim>\<open>username\<close>, the name of the game the sanitized \<^verbatim>\<open>name\<close>
  and the id the \<^verbatim>\<open>id\<close>.
\<close>

theorem from_api_dict_rank_override:
  "GameInfo_from_api_dict d = Inr g \<longleftrightarrow>
     (\<exists>n uw ub kw kb.
        getitem d ''id'' = Inr (JInt (id' g))
      \<and> getitem d ''name'' = Inr n \<and> sanitize_name_of n = Inr (GameInfo.name g)
      \<and> getpath d [''players'', ''white'', ''username''] = Inr uw
      \<and> sanitize_name_of uw = Inr (Player.name (white g))
      \<and> getpath d [''players'', ''white'', ''ranking''] = Inr kw
      \<and> getpath d [''players'', ''black'', ''username''] = Inr ub
      \<and> sanitize_name_of ub = Inr (Player.name (black g))
      \<and> getpath d [''players'', ''black'', ''ranking''] = Inr kb
      \<and> getpath d [''historical_ratings'', ''white'', ''ratings'', ''overall'', ''rating'']
          = Inr (rank (white g))
      \<and> getpath d [''historical_ratings'', ''black'', ''ratings'', ''overall'', ''rating'']
          = Inr (rank (black g)))"
  (is "?L \<longleftrightarrow> ?R")
proof
  assume ?L
  then obtain i n s wd w bd b k rw rb where
    i: "getitem d ''id'' = Inr i" and n: "getitem d ''name'' = Inr n"
    and s: "sanitize_name_of n = Inr s"
    and wd: "getpath d [''players'', ''white''] = Inr wd"
    and w: "Player_from_api_dict wd = Inr w"
    and bd: "getpath d [''players'', ''black''] = Inr bd"
    and b: "Player_from_api_dict bd = Inr b"
    and k: "i = JInt k"
    and rw: "getpath d [''historical_ratings'', ''white'', ''ratings'', ''overall'', ''rating''] = Inr rw"
    and rb: "getpath d [''historical_ratings'', ''black'', ''ratings'', ''overall'', ''rating''] = Inr rb"
    and g: "g = \<lparr>id' = k, name = s, white = w\<lparr>rank := rw\<rparr>, black = b\<lparr>rank := rb\<rparr>\<rparr>"
    unfolding GameInfo_from_api_dict_def
    by (auto simp: Let_def split: sum.splits json.splits)
  from w obtain uw where uw: "getitem wd ''username'' = Inr uw"
    "sanitize_name_of uw = Inr (Player.name w)" "getitem wd ''ranking'' = Inr (rank w)"
    unfolding Player_from_api_dict_iff by blast
  from b obtain ub where ub: "getitem bd ''username'' = Inr ub"
    "sanitize_name_of ub = Inr (Player.name b)" "getitem bd ''ranking'' = Inr (rank b)"
    unfolding Player_from_api_dict_iff by blast
  have pw: "getpath d [''players'', ''white'', k'] = getitem wd k'" for k'
    using wd by (auto split: sum.splits)
  have pb: "getpath d [''players'', ''black'', k'] = getitem bd k'" for k'
    using bd by (auto split: sum.splits)
  show ?R
    using i n s k rw rb uw ub by (simp add: g pw pb del: getpath.simps)
next
  assume ?R
  then obtain n uw ub kw kb where
    i: "getitem d ''id'' = Inr (JInt (id' g))"
    and n: "getitem d ''name'' = Inr n" "sanitize_name_of n = Inr (GameInfo.name g)"
    and uw: "getpath d [''players'', ''white'', ''username''] = Inr uw"
      "sanitize_name_of uw = Inr (Player.name (white g))"
    and kw: "getpath d [''players'', ''white'', ''ranking''] = Inr kw"
    and ub: "getpath d [''players'', ''black'', ''username''] = Inr ub"
      "sanitize_name_of ub = Inr (Player.name (black g))"
    and kb: "getpath d [''players'', ''black'', ''ranking''] = Inr kb"
    and rw: "getpath d [''historical_ratings'', ''white'', ''ratings'', ''overall'', ''rating'']
          = Inr (rank (white g))"
    and rb: "getpath d [''historical_ratings'', ''black'', ''ratings'', ''overall'', ''rating'']
          = Inr (rank (black g))"
    by blast
  from uw(1) obtain wd where wd: "getpath d [''players'', ''white''] = Inr wd"
    and wu: "getitem wd ''username'' = Inr uw"
    unfolding getpath_players by blast
  from kw wd have wk: "getitem wd ''ranking'' = Inr kw"
    unfolding getpath_players by simp
  from ub(1) obtain bd where bd: "getpath d [''players'', ''black''] = Inr bd"
    and bu: "getitem bd ''username'' = Inr ub"
    unfolding getpath_players by blast
  from kb bd have bk: "getitem bd ''ranking'' = Inr kb"
    unfolding getpath_players by simp
  have w: "Player_from_api_dict wd = Inr \<lparr>Player.name = Player.name (white g), rank = kw\<rparr>"
    using wu uw(2) wk by (simp add: Player_from_api_dict_def)
  have b: "Player_from_api_dict bd = Inr \<lparr>Player.name = Player.name (black g), rank = kb\<rparr>"
    using bu ub(2) bk by (simp add: Player_from_api_dict_def)
  have "GameInfo_from_api_dict d =
      Inr \<lparr>id' = id' g, name = GameInfo.name g,
           white = \<lparr>Player.name = Player.name (white g), rank = rank (white g)\<rparr>,
           black = \<lparr>Player.name = Player.name (black g), rank = rank (black g)\<rparr>\<rparr>"
    unfolding GameInfo_from_api_dict_def
    using i n wd w bd b rw rb by (simp add: Let_def del: getpath.simps)
  then show ?L by simp
qed

text \<open>
  An item as the API sends it: the \<^verbatim>\<open>ranking\<close> of white is 21 and the historical rating
  1743.14; the names hold a character that the sanitizer drops.
\<close>

definition api_item :: json where
  "api_item = JDict
     [(''id'', JInt 600), (''name'', JStr ''Fast game!''),
      (''players'', JDict
         [(''white'', JDict [(''username'', JStr ''al-ice''), (''ranking'', JInt 21)]),
          (''black'', JDict [(''username'', JStr ''bob_2''), (''ranking'', JInt 19)])]),
      (''historical_ratings'', JDict
         [(''white'', JDict [(''ratings'', JDict [(''overall'', JDict [(''rating'', JFloat ''1743.14'')])])]),
          (''black'', JDict [(''ratings'', JDict [(''overall'', JDict [(''rating'', JFloat ''1688.5'')])])])])]"

definition api_game :: GameInfo where
  "api_game = \<lparr>id' = 600, name = ''Fast game'',
       white = \<lparr>Player.name = ''alice'', rank = JFloat ''1743.14''\<rparr>,
       black = \<lparr>Player.name = ''bob_2'', rank = JFloat ''1688.5''\<rparr>\<rparr>"

theorem from_api_dict_rank_override_witness:
  "GameInfo_from_api_dict api_item = Inr api_game
   \<and> getpath api_item [''players'', ''white'', ''ranking''] = Inr (JInt 21)
   \<and> getpath api_item [''historical_ratings'', ''white'', ''ratings'', ''overall'', ''rating'']
       = Inr (JFloat ''1743.14'')
   \<and> rank (white api_game) = JFloat ''1743.14''
   \<and> getpath api_item [''players'', ''black'', ''ranking''] = Inr (JInt 19)
   \<and> rank (black api_game) = JFloat ''1688.5''
   \<and> Player.name (white api_game) = sanitize_name ''al-ice''
   \<and> GameInfo.name api_game = sanitize_name ''Fast game!''"
proof -
  have names: "sanitize_name ''al-ice'' = ''alice''" "sanitize_name ''Fast game!'' = ''Fast game''"
    "sanitize_name ''bob_2'' = ''bob_2''"
    by (simp_all add: sanitize_name_def isalnum_def)
  have fields: "\<exists>n uw ub kw kb.
        getitem api_item ''id'' = Inr (JInt (id' api_game))
      \<and> getitem api_item ''name'' = Inr n \<and> sanitize_name_of n = Inr (GameInfo.name api_game)
      \<and> getpath api_item [''players'', ''white'', ''username''] = Inr uw
      \<and> sanitize_name_of uw = Inr (Player.name (white api_game))
      \<and> getpath api_item [''players'', ''white'', ''ranking''] = Inr kw
      \<and> getpath api_item [''players'', ''black'', ''username''] = Inr ub
      \<and> sanitize_name_of ub = Inr (Player.name (black api_game))
      \<and> getpath api_item [''players'', ''black'', ''ranking''] = Inr kb
      \<and> getpath api_item [''historical_ratings'', ''white'', ''ratings'', ''overall'', ''rating'']
          = Inr (rank (white api_game))
      \<and> getpath api_item [''historical_ratings'', ''black'', ''ratings'', ''overall'', ''rating'']
          = Inr (rank (black api_game))"
    by (simp add: api_item_def api_game_def names)
  from from_api_dict_rank_override [THEN iffD2, OF fields]
  have "GameInfo_from_api_dict api_item = Inr api_game" .
  then show ?thesis
    by (simp add: names) (simp add: api_item_def api_game_def)
qed

section \<open>No games on the server\<close>

text \<open>
  Claim C10. When the server returns zero games for a user (the first page has no results
  and no next link), the loop body of \<open>build_index\<close> never runs, \<open>idx\<close> is read unbound and
  \<open>build_index\<close> raises a \<open>NameError\<close> instead of returning the index.
\<close>

theorem build_index_zero_games_NameError:
  assumes "mkdir ''./index'' w = (Inr (), w0)"
    and "read_index loads w0 user_id = Inr old_games"
    and "first_page loads user_id w0 = (Inr data, w1)"
    and "getitem data ''results'' = Inr (JList [])"
    and "getitem data ''next'' = Inr JNull"
  shows "build_index loads user_id w = (Inl NameError, w1)"
proof -
  have items: "page_items data = Inr []"
    using assms(4) by (simp add: page_items_def)
  have "map_result GameInfo_from_api_dict [] = Inr []" by simp
  from games_list_last_page [OF this assms(5)]
  have "games_list loads (Suspended [] data) w1 = (Inr [], w1)" .
  with games_list_first_page [OF assms(3) items]
  have "games_list loads (list_user_games user_id) w0 = (Inr [], w1)" by simp
  from build_index_no_games [OF assms(1,2) this] show ?thesis .
qed

definition no_games_page :: json where
  "no_games_page = page_of [] JNull"

definition no_games_world :: world where
  "no_games_world = world_of [''.''] [] [response_of 200 (json_dumps no_games_page)]"

definition no_games_after :: world where
  "no_games_after = \<lparr>dirs = [''.'', ''./index''], files = [], incoming = [],
     requested = [\<lparr>url = ''https://online-go.com/api/v1/players/1/games'', params = query\<rparr>],
     slept = [], sigints = []\<rparr>"

lemma no_games_page_text: \<open>json_dumps no_games_page = ''{"results": [], "next": null}''\<close>
  by (simp add: no_games_page_def page_of_def dumps_str_def dumps_char_def)

theorem build_index_zero_games_NameError_witness:
  "read_index (loads_of [no_games_page]) no_games_world 1 = Inr []
   \<and> build_index (loads_of [no_games_page]) 1 no_games_world = (Inl NameError, no_games_after)"
proof -
  let ?w0 = "no_games_world\<lparr>dirs := [''.'', ''./index'']\<rparr>"
  have mk: "mkdir ''./index'' no_games_world = (Inr (), ?w0)"
    by (simp add: mkdir_def no_games_world_def world_of_def)
  have rd: "read_index (loads_of [no_games_page]) ?w0 1 = Inr []"
    by (simp add: read_index_def read_text_def no_games_world_def world_of_def)
  have rd': "read_index (loads_of [no_games_page]) no_games_world 1 = Inr []"
    by (simp add: read_index_def read_text_def no_games_world_def world_of_def)
  have fp: "first_page (loads_of [no_games_page]) 1 ?w0 = (Inr no_games_page, no_games_after)"
    by (subst first_page_ok [where r = "response_of 200 (json_dumps no_games_page)" and rest = "[]"])
      (simp_all add: no_games_world_def world_of_def response_of_def loads_of_first
        no_games_after_def str_int_def str_nat.simps)
  have r: "getitem no_games_page ''results'' = Inr (JList [])"
    and n: "getitem no_games_page ''next'' = Inr JNull"
    by (simp_all add: no_games_page_def page_of_def)
  from build_index_zero_games_NameError [OF mk rd fp r n] rd' show ?thesis by simp
qed

section \<open>One new game\<close>

text \<open>
  A first run for user 1: no index directory, and the server has one finished game (id 7),
  or two (ids 8 and 7), on a single page.
\<close>

definition games_world :: "int list \<Rightarrow> world" where
  "games_world ids =
     world_of [''.''] [] [response_of 200 (json_dumps (page_of (map api_item_of ids) JNull))]"

definition games_loads :: "int list \<Rightarrow> string \<Rightarrow> py_error + json" where
  "games_loads ids = loads_of [page_of (map api_item_of ids) JNull]"

definition games_fetched :: world where
  "games_fetched = \<lparr>dirs = [''.'', ''./index''], files = [], incoming = [],
     requested = [\<lparr>url = ''https://online-go.com/api/v1/players/1/games'', params = query\<rparr>],
     slept = [], sigints = []\<rparr>"

lemma games_world_mkdir:
  "mkdir ''./index'' (games_world ids) = (Inr (), (games_world ids)\<lparr>dirs := [''.'', ''./index'']\<rparr>)"
  by (simp add: mkdir_def games_world_def world_of_def)

lemma games_world_read:
  "read_index loads ((games_world ids)\<lparr>dirs := [''.'', ''./index'']\<rparr>) 1 = Inr []"
  by (simp add: read_index_def read_text_def games_world_def world_of_def)

lemma games_world_list:
  "games_list (games_loads ids) (list_user_games 1) ((games_world ids)\<lparr>dirs := [''.'', ''./index'']\<rparr>)
     = (Inr (map game_of ids), games_fetched)"
proof -
  let ?page = "page_of (map api_item_of ids) JNull"
  have fp: "first_page (games_loads ids) 1 ((games_world ids)\<lparr>dirs := [''.'', ''./index'']\<rparr>)
              = (Inr ?page, games_fetched)"
    by (subst first_page_ok [where r = "response_of 200 (json_dumps ?page)" and rest = "[]"])
      (simp_all add: games_world_def world_of_def response_of_def games_loads_def loads_of_first
        games_fetched_def str_int_def str_nat.simps)
  have items: "page_items ?page = Inr (map api_item_of ids)"
    by (simp add: page_items_def page_of_def)
  have "getitem ?page ''next'' = Inr JNull" by (simp add: page_of_def)
  from games_list_last_page [OF map_result_api_items this]
  have "games_list (games_loads ids) (Suspended (map api_item_of ids) ?page) games_fetched
          = (Inr (map game_of ids), games_fetched)" .
  with games_list_first_page [OF fp items] show ?thesis by simp
qed

text \<open>
  Claim C2, at the input where the code departs from it. The fetch yields exactly one new
  game into an empty index: \<open>build_index\<close> returns the index of that game and writes no
  index file, since \<open>idx\<close> is 0 after the only iteration. With two new games the file is
  written.
\<close>

theorem build_index_one_new_game_not_written:
  "build_index (games_loads [7]) 1 (games_world [7]) = (Inr [game_of 7], games_fetched)
   \<and> files games_fetched = []
   \<and> build_index (games_loads [8, 7]) 1 (games_world [8, 7])
       = (Inr [game_of 8, game_of 7],
          games_fetched\<lparr>files := [(''./index/1.json'',
             Text (json_dumps (JList [asdict (game_of 8), asdict (game_of 7)])))]\<rparr>)"
proof -
  have l1: "games_list (games_loads [7]) (list_user_games 1)
              ((games_world [7])\<lparr>dirs := [''.'', ''./index'']\<rparr>) = (Inr [game_of 7], games_fetched)"
    using games_world_list [of "[7]"] by simp
  have one: "build_index (games_loads [7]) 1 (games_world [7]) = (Inr [game_of 7], games_fetched)"
    using build_index_one_game [OF games_world_mkdir games_world_read l1] by simp
  have l2: "games_list (games_loads [8, 7]) (list_user_games 1)
              ((games_world [8, 7])\<lparr>dirs := [''.'', ''./index'']\<rparr>)
            = (Inr [game_of 8, game_of 7], games_fetched)"
    using games_world_list [of "[8, 7]"] by simp
  have w: "write_index 1 [game_of 8, game_of 7] games_fetched
             = (Inr (), games_fetched\<lparr>files := [(''./index/1.json'',
                  Text (json_dumps (JList [asdict (game_of 8), asdict (game_of 7)])))]\<rparr>)"
    by (subst write_index_ok [where s = "[]"])
      (simp_all add: games_fetched_def str_int_def str_nat.simps)
  have two: "build_index (games_loads [8, 7]) 1 (games_world [8, 7])
       = (Inr [game_of 8, game_of 7],
          games_fetched\<lparr>files := [(''./index/1.json'',
             Text (json_dumps (JList [asdict (game_of 8), asdict (game_of 7)])))]\<rparr>)"
    using build_index_many_games [OF games_world_mkdir games_world_read l2] w by simp
  from one two show ?thesis by (simp add: games_fetched_def)
qed

section \<open>Merging into a prior index\<close>

text \<open>
  A later run for user 1: the index file holds the games \<open>old\<close> and the server has the
  games \<open>ids\<close> on a single page.
\<close>

definition indexed_doc :: "int list \<Rightarrow> json" where
  "indexed_doc old = JList (map (\<lambda>i. asdict (game_of i)) old)"

definition indexed_world :: "int list \<Rightarrow> int list \<Rightarrow> world" where
  "indexed_world old ids =
     world_of [''.'', ''./index''] [(''./index/1.json'', Text (json_dumps (indexed_doc old)))]
       [response_of 200 (json_dumps (page_of (map api_item_of ids) JNull))]"

definition indexed_loads :: "int list \<Rightarrow> int list \<Rightarrow> string \<Rightarrow> py_error + json" where
  "indexed_loads old ids = loads_of [indexed_doc old, page_of (map api_item_of ids) JNull]"



lemma indexed_read:
  "read_index (indexed_loads old ids) (indexed_world old ids) 1 = Inr (map game_of old)"
proof -
  have "read_text (indexed_world old ids) ''./index/1.json'' = Inr (json_dumps (indexed_doc old))"
    by (simp add: read_text_def indexed_world_def world_of_def)
  moreover have "indexed_loads old ids (json_dumps (indexed_doc old)) = Inr (indexed_doc old)"
    by (simp add: indexed_loads_def loads_of_first)
  moreover have "py_iter (indexed_doc old) = Inr (map (\<lambda>i. asdict (game_of i)) old)"
    by (simp add: indexed_doc_def)
  ultimately show ?thesis
    by (simp add: read_index_def str_int_def str_nat.simps map_result_index_items)
qed

lemma indexed_loads_page:
  "indexed_loads old ids (json_dumps (page_of (map api_item_of ids) JNull))
     = Inr (page_of (map api_item_of ids) JNull)"
  using dumps_list_not_dict by (simp add: indexed_loads_def loads_of_def indexed_doc_def page_of_def)

lemma str_int_1: "str_int 1 = ''1''"
  by (simp add: str_int_def str_nat.simps)


lemma id_game_of: "id' (game_of i) = i"
  by (simp add: game_of_def)




section \<open>Reading an index\<close>

lemma getitem_error: "getitem d k = Inl e \<Longrightarrow> \<not> is_IOError e"
  by (cases d) (auto split: option.splits)

lemma sanitize_items_error: "sanitize_items xs = Inl e \<Longrightarrow> \<not> is_IOError e"
  by (induction xs arbitrary: e rule: sanitize_items.induct) (auto split: sum.splits)

lemma sanitize_name_of_error: "sanitize_name_of v = Inl e \<Longrightarrow> \<not> is_IOError e"
  by (cases v) (auto dest: sanitize_items_error)

lemma Player_from_dict_error: "Player_from_dict d = Inl e \<Longrightarrow> \<not> is_IOError e"
  by (auto simp: Player_from_dict_def split: sum.splits json.splits dest: getitem_error)

lemma GameInfo_from_dict_error: "GameInfo_from_dict d = Inl e \<Longrightarrow> \<not> is_IOError e"
  unfolding GameInfo_from_dict_def
  by (auto split: sum.splits json.splits
      dest: getitem_error sanitize_name_of_error Player_from_dict_error)

lemma map_result_error:
  "map_result f xs = Inl e \<Longrightarrow> \<exists>x \<in> set xs. f x = Inl e"
  by (induction xs) (auto split: sum.splits)

lemma py_iter_error: "py_iter v = Inl e \<Longrightarrow> \<not> is_IOError e"
  by (cases v) auto

text \<open>
  Claim C3 as stated fails: \<open>read_index\<close> does raise to its caller. The handler is
  \<^verbatim>\<open>except IOError\<close>; an index file that holds the text \<^verbatim>\<open>{\<close> makes \<^verbatim>\<open>json.loads\<close> raise a
  \<^verbatim>\<open>ValueError\<close>, and one that holds \<^verbatim>\<open>[{}]\<close> makes \<^verbatim>\<open>GameInfo.from_dict\<close> raise a \<^verbatim>\<open>KeyError\<close>
  for \<^verbatim>\<open>id\<close>; neither is caught.
\<close>

theorem read_index_raises_counterexample:
  "json_dumps (JList [JDict []]) = ''[{}]''
   \<and> read_index (loads_of [JList [JDict []]])
        (world_of [''.'', ''./index''] [(''./index/1.json'', Text ''{'')] []) 1
       = Inl ValueError
   \<and> read_index (loads_of [JList [JDict []]])
        (world_of [''.'', ''./index''] [(''./index/1.json'', Text ''[{}]'')] []) 1
       = Inl (KeyError ''id'')"
proof -
  have t: "json_dumps (JList [JDict []]) = ''[{}]''" by simp
  have l1: "loads_of [JList [JDict []]] ''{'' = Inl ValueError"
    by (simp add: loads_of_def)
  have l2: "loads_of [JList [JDict []]] ''[{}]'' = Inr (JList [JDict []])"
    using loads_of_first [of "JList [JDict []]" "[]"] by (simp only: t)
  have d: "GameInfo_from_dict (JDict []) = Inl (KeyError ''id'')"
    by (simp add: GameInfo_from_dict_def)
  show ?thesis
    by (simp add: t read_index_def read_text_def world_of_def str_int_def str_nat.simps l1 l2 d
        del: json_dumps.simps)
qed

text \<open>
  Claim C3, amended. For every user id: when the index file is absent or cannot be
  opened, \<open>read_index\<close> returns the empty sequence; when the file is there, its text
  parses and every item gives a record, it returns the records in the order of the file;
  when the text does not parse, or an item gives no record (a field is missing),
  the exception of the parser or of the constructor is raised to the caller: it is not
  an \<open>IOError\<close>, the only class the handler catches.
\<close>

theorem read_index_cases:
  "(map_of (files w) (''./index/'' @ str_int user_id @ ''.json'') = None
      \<or> map_of (files w) (''./index/'' @ str_int user_id @ ''.json'') = Some Denied
      \<longrightarrow> read_index loads w user_id = Inr [])
   \<and> (map_of (files w) (''./index/'' @ str_int user_id @ ''.json'') = Some (Text s)
      \<and> loads s = Inr data \<and> py_iter data = Inr items
      \<and> map_result GameInfo_from_dict items = Inr old_games
      \<longrightarrow> read_index loads w user_id = Inr old_games)
   \<and> (map_of (files w) (''./index/'' @ str_int user_id @ ''.json'') = Some (Text s)
      \<and> loads s = Inl e \<and> \<not> is_IOError e
      \<longrightarrow> read_index loads w user_id = Inl e)
   \<and> (map_of (files w) (''./index/'' @ str_int user_id @ ''.json'') = Some (Text s)
      \<and> loads s = Inr data \<and> py_iter data = Inr items
      \<and> map_result GameInfo_from_dict items = Inl e
      \<longrightarrow> read_index loads w user_id = Inl e)"
proof (intro conjI impI)
  assume "map_of (files w) (''./index/'' @ str_int user_id @ ''.json'') = None
      \<or> map_of (files w) (''./index/'' @ str_int user_id @ ''.json'') = Some Denied"
  then show "read_index loads w user_id = Inr []"
    by (auto simp: read_index_def read_text_def)
next
  assume "map_of (files w) (''./index/'' @ str_int user_id @ ''.json'') = Some (Text s)
      \<and> loads s = Inr data \<and> py_iter data = Inr items
      \<and> map_result GameInfo_from_dict items = Inr old_games"
  then show "read_index loads w user_id = Inr old_games"
    by (simp add: read_index_def read_text_def)
next
  assume "map_of (files w) (''./index/'' @ str_int user_id @ ''.json'') = Some (Text s)
      \<and> loads s = Inl e \<and> \<not> is_IOError e"
  then show "read_index loads w user_id = Inl e"
    by (simp add: read_index_def read_text_def)
next
  assume a: "map_of (files w) (''./index/'' @ str_int user_id @ ''.json'') = Some (Text s)
      \<and> loads s = Inr data \<and> py_iter data = Inr items
      \<and> map_result GameInfo_from_dict items = Inl e"
  then have "\<not> is_IOError e"
    using map_result_error GameInfo_from_dict_error by blast
  with a show "read_index loads w user_id = Inl e"
    by (simp add: read_index_def read_text_def)
qed

theorem read_index_cases_witness:
  "read_index (loads_of [indexed_doc [5, 3]]) (world_of [''.''] [] []) 1 = Inr []
   \<and> read_index (loads_of [indexed_doc [5, 3]])
        (world_of [''.'', ''./index''] [(''./index/1.json'', Denied)] []) 1 = Inr []
   \<and> read_index (loads_of [indexed_doc [5, 3]])
        (world_of [''.'', ''./index'']
           [(''./index/1.json'', Text (json_dumps (indexed_doc [5, 3])))] []) 1
       = Inr [game_of 5, game_of 3]
   \<and> read_index (loads_of [indexed_doc [5, 3]])
        (world_of [''.'', ''./index''] [(''./index/1.json'', Text ''not json'')] []) 1
       = Inl ValueError
   \<and> read_index (loads_of [JList [JDict [(''id'', JInt 5)]]])
        (world_of [''.'', ''./index'']
           [(''./index/1.json'', Text (json_dumps (JList [JDict [(''id'', JInt 5)]])))] []) 1
       = Inl (KeyError ''name'')"
proof -
  have p: "str_int 1 = ''1''"
    by (simp add: str_int_def str_nat.simps)
  have absent: "read_index (loads_of [indexed_doc [5, 3]]) (world_of [''.''] [] []) 1 = Inr []"
    using read_index_cases [where w = "world_of [''.''] [] []" and user_id = 1
        and loads = "loads_of [indexed_doc [5, 3]]"]
    by (simp add: world_of_def)
  have denied: "read_index (loads_of [indexed_doc [5, 3]])
        (world_of [''.'', ''./index''] [(''./index/1.json'', Denied)] []) 1 = Inr []"
    using read_index_cases [where w = "world_of [''.'', ''./index''] [(''./index/1.json'', Denied)] []"
        and user_id = 1 and loads = "loads_of [indexed_doc [5, 3]]"]
    by (simp add: world_of_def p)
  have parsed: "read_index (loads_of [indexed_doc [5, 3]])
        (world_of [''.'', ''./index'']
           [(''./index/1.json'', Text (json_dumps (indexed_doc [5, 3])))] []) 1
       = Inr [game_of 5, game_of 3]"
    using read_index_cases [where w = "world_of [''.'', ''./index'']
           [(''./index/1.json'', Text (json_dumps (indexed_doc [5, 3])))] []"
        and user_id = 1 and s = "json_dumps (indexed_doc [5, 3])"
        and loads = "loads_of [indexed_doc [5, 3]]" and data = "indexed_doc [5, 3]"
        and items = "map (\<lambda>i. asdict (game_of i)) [5, 3]" and old_games = "map game_of [5, 3]"]
      map_result_index_items [of "[5, 3]"]
    by (simp add: world_of_def p loads_of_first indexed_doc_def del: json_dumps.simps)
  have malformed: "read_index (loads_of [indexed_doc [5, 3]])
        (world_of [''.'', ''./index''] [(''./index/1.json'', Text ''not json'')] []) 1
       = Inl ValueError"
  proof -
    have "loads_of [indexed_doc [5, 3]] ''not json'' = Inl ValueError"
      by (simp add: loads_of_def indexed_doc_def)
    then show ?thesis
      using read_index_cases [where w = "world_of [''.'', ''./index'']
            [(''./index/1.json'', Text ''not json'')] []"
          and user_id = 1 and s = "''not json''" and loads = "loads_of [indexed_doc [5, 3]]"
          and e = ValueError]
      by (simp add: world_of_def p)
  qed
  have missing: "read_index (loads_of [JList [JDict [(''id'', JInt 5)]]])
        (world_of [''.'', ''./index'']
           [(''./index/1.json'', Text (json_dumps (JList [JDict [(''id'', JInt 5)]])))] []) 1
       = Inl (KeyError ''name'')"
  proof -
    have "map_result GameInfo_from_dict [JDict [(''id'', JInt 5)]] = Inl (KeyError ''name'')"
      by (simp add: GameInfo_from_dict_def)
    then show ?thesis
      using read_index_cases [where w = "world_of [''.'', ''./index'']
           [(''./index/1.json'', Text (json_dumps (JList [JDict [(''id'', JInt 5)]])))] []"
          and user_id = 1 and s = "json_dumps (JList [JDict [(''id'', JInt 5)]])"
          and loads = "loads_of [JList [JDict [(''id'', JInt 5)]]]"
          and data = "JList [JDict [(''id'', JInt 5)]]"
          and items = "[JDict [(''id'', JInt 5)]]" and e = "KeyError ''name''"]
      by (simp add: world_of_def p loads_of_first del: json_dumps.simps)
  qed
  from absent denied parsed malformed missing show ?thesis by simp
qed

section \<open>Archiving a game\<close>

lemma write_text_written:
  "write_text path data w = (Inr (), w1) \<Longrightarrow> map_of (files w1) path = Some (Text data)"
  by (auto simp: write_text_def update_conv' split: if_splits list.splits option.splits)

lemma load_game_exists:
  "path_exists w (archive_path user_id game_info) \<Longrightarrow>
   load_game user_id game_info w = (Inr (), w)"
  by (simp add: load_game_def)

lemma load_game_returned:
  "load_game user_id game_info w = (Inr (), w1) \<Longrightarrow>
   path_exists w1 (archive_path user_id game_info)"
  by (auto simp: load_game_def Let_def Path_delete_def path_exists_def
      split: prod.splits sum.splits if_splits dest: write_text_written)

text \<open>
  Claim C4. When the archive path of a game already holds a file, \<open>load_game\<close> returns at
  once and the world is as before: no request was sent. Hence after a call that returned,
  the file is there and a second call for the same game returns with the world of the
  first: no request, and the file with the content it had.
\<close>

theorem load_game_idempotent:
  "(path_exists w (archive_path user_id game_info)
      \<longrightarrow> load_game user_id game_info w = (Inr (), w))
   \<and> (load_game user_id game_info w = (Inr (), w1)
      \<longrightarrow> path_exists w1 (archive_path user_id game_info)
          \<and> load_game user_id game_info w1 = (Inr (), w1))"
proof (intro conjI impI)
  assume "path_exists w (archive_path user_id game_info)"
  then show "load_game user_id game_info w = (Inr (), w)" by (rule load_game_exists)
next
  assume "load_game user_id game_info w = (Inr (), w1)"
  then show "path_exists w1 (archive_path user_id game_info)" by (rule load_game_returned)
  then show "load_game user_id game_info w1 = (Inr (), w1)" by (rule load_game_exists)
qed

text \<open>User 1 archives game 7: the directory is there, the file is not, the server answers.\<close>

definition archive_world :: "nat option list \<Rightarrow> world" where
  "archive_world sg = \<lparr>dirs = [''.'', ''./games'', ''./games/1''], files = [],
     incoming = [response_of 200 ''(;GM[1]SZ[19])''], requested = [], slept = [],
     sigints = sg\<rparr>"

definition archive_done :: "string \<Rightarrow> world" where
  "archive_done content = \<lparr>dirs = [''.'', ''./games'', ''./games/1''],
     files = [(''./games/1/7 g [b vs w].sgf'', Text content)], incoming = [],
     requested = [\<lparr>url = ''http://online-go.com/api/v1/games/7/sgf/'', params = []\<rparr>],
     slept = [], sigints = []\<rparr>"

lemma archive_path_7: "archive_path 1 (game_of 7) = ''./games/1/7 g [b vs w].sgf''"
  by (simp add: archive_path_def game_of_def str_int_def str_nat.simps)

lemma archive_world_get:
  "throttled_get 10 \<lparr>url = ''http://online-go.com/api/v1/games/7/sgf/'', params = []\<rparr>
     (archive_world sg)
   = (Inr (response_of 200 ''(;GM[1]SZ[19])''),
      (archive_world sg)\<lparr>incoming := [], requested :=
         [\<lparr>url = ''http://online-go.com/api/v1/games/7/sgf/'', params = []\<rparr>]\<rparr>)"
  by (subst throttled_get_result [where r = "response_of 200 ''(;GM[1]SZ[19])''" and rest = "[]"])
    (simp_all add: archive_world_def response_of_def)

lemma archive_world_start:
  "load_game 1 (game_of 7) (archive_world sg) =
     (case write_text ''./games/1/7 g [b vs w].sgf'' ''(;GM[1]SZ[19])''
             ((archive_world sg)\<lparr>incoming := [], requested :=
                [\<lparr>url = ''http://online-go.com/api/v1/games/7/sgf/'', params = []\<rparr>]\<rparr>) of
        (Inl e, w2) \<Rightarrow>
          if e = KeyboardInterrupt
          then (case Path_delete ''./games/1/7 g [b vs w].sgf'' w2 of
                  (Inl e', w3) \<Rightarrow> (Inl e', w3)
                | (Inr _, w3) \<Rightarrow> (Inl KeyboardInterrupt, w3))
          else (Inl e, w2)
      | (Inr _, w2) \<Rightarrow> (Inr (), w2))"
proof -
  have i: "''http://online-go.com/api/v1/games/'' @ str_int (id' (game_of 7)) @ ''/sgf/''
             = ''http://online-go.com/api/v1/games/7/sgf/''"
    by (simp add: game_of_def str_int_def str_nat.simps)
  have e: "\<not> path_exists (archive_world sg) ''./games/1/7 g [b vs w].sgf''"
    by (simp add: path_exists_def archive_world_def)
  have r: "raise_for_status (response_of 200 ''(;GM[1]SZ[19])'') = Inr ()"
    by (simp add: raise_for_status_def response_of_def)
  have t: "text (response_of 200 ''(;GM[1]SZ[19])'') = ''(;GM[1]SZ[19])''"
    by (simp add: response_of_def)
  show ?thesis
    unfolding load_game_def archive_path_7 i Let_def
    by (simp only: e if_False archive_world_get prod.case sum.case r t)
qed

lemma archive_world_load:
  "load_game 1 (game_of 7) (archive_world []) = (Inr (), archive_done ''(;GM[1]SZ[19])'')"
  unfolding archive_world_start
  by (simp add: write_text_def dirname_def archive_world_def archive_done_def)

theorem load_game_idempotent_witness:
  "load_game 1 (game_of 7) (archive_world []) = (Inr (), archive_done ''(;GM[1]SZ[19])'')
   \<and> path_exists (archive_done ''(;GM[1]SZ[19])'') (archive_path 1 (game_of 7))
   \<and> load_game 1 (game_of 7) (archive_done ''(;GM[1]SZ[19])'')
       = (Inr (), archive_done ''(;GM[1]SZ[19])'')"
  using load_game_idempotent [of "archive_world []" 1 "game_of 7" "archive_done ''(;GM[1]SZ[19])''"]
    archive_world_load
  by (simp add: archive_path_7)

text \<open>
  Claim C5, at the input where the code departs from it. A keyboard interrupt arrives
  after the first two characters of the archive file were written. The handler calls
  \<^verbatim>\<open>Path(path).delete()\<close>, which raises \<^verbatim>\<open>AttributeError\<close>: that exception leaves
  \<open>load_game\<close> in place of the interrupt, and the truncated file stays at the archive path.
\<close>

theorem load_game_interrupt_leaves_file:
  "load_game 1 (game_of 7) (archive_world [Some 2]) = (Inl AttributeError, archive_done ''(;'')
   \<and> map_of (files (archive_done ''(;'')) (archive_path 1 (game_of 7)) = Some (Text ''(;'')"
  unfolding archive_world_start
  by (simp add: write_text_def dirname_def archive_world_def archive_done_def Path_delete_def
      archive_path_7)

section \<open>Errors of the HTTP client\<close>

lemma games_list_items_raise:
  "map_result GameInfo_from_api_dict items = Inr gs \<Longrightarrow>
   games_list loads (Suspended [] data) w = (Inl e, w9) \<Longrightarrow>
   games_list loads (Suspended items data) w = (Inl e, w9)"
proof (induction items arbitrary: gs)
  case Nil
  then show ?case by simp
next
  case (Cons item items)
  from Cons.prems(1) obtain x xs where x: "GameInfo_from_api_dict item = Inr x"
    and xs: "map_result GameInfo_from_api_dict items = Inr xs"
    by (auto split: sum.splits)
  show ?case
    by (subst games_list.simps) (simp add: x Cons.IH [OF xs Cons.prems(2)])
qed

lemma games_list_next_page_raise:
  assumes "map_result GameInfo_from_api_dict items = Inr gs"
    and "getitem data ''next'' = Inr link" and "link \<noteq> JNull"
    and "next_page loads link w = (Inl e, w1)"
  shows "games_list loads (Suspended items data) w = (Inl e, w1)"
proof -
  have "games_next loads (Suspended [] data) w = (Inl e, w1)"
    using assms(2-4) by simp
  from games_list_items_raise [OF assms(1) games_list_raise [OF this]] show ?thesis .
qed

lemma games_list_first_page_raise:
  assumes "first_page loads u w = (Inl e, w1)"
  shows "games_list loads (list_user_games u) w = (Inl e, w1)"
proof -
  have "games_next loads (Unstarted u) w = (Inl e, w1)"
    using assms by simp
  from games_list_raise [OF this] show ?thesis by (simp add: list_user_games_def)
qed

text \<open>
  The history of user 1 on two pages: the first page holds game 7 and the link to the
  second.
\<close>

definition first_of_two :: json where
  "first_of_two = page_of [api_item_of 7]
     (JStr ''https://online-go.com/api/v1/players/1/games?page=2'')"

definition sent_first :: request where
  "sent_first = \<lparr>url = ''https://online-go.com/api/v1/players/1/games'', params = query\<rparr>"

definition sent_second :: request where
  "sent_second = \<lparr>url = ''https://online-go.com/api/v1/players/1/games?page=2'', params = []\<rparr>"

definition second_of_two :: json where
  "second_of_two = page_of [api_item_of 6] JNull"

lemma pages_differ: "json_dumps first_of_two \<noteq> json_dumps second_of_two"
  by (simp add: first_of_two_def second_of_two_def page_of_def api_item_of_def
      dumps_str_def dumps_char_def str_int_def str_nat.simps)

lemma second_of_two_not_text: "json_dumps second_of_two \<noteq> ''Server Error (500)''"
  by (simp add: second_of_two_def page_of_def)

lemma first_of_two_not_text: "json_dumps first_of_two \<noteq> ''Server Error (500)''"
  by (simp add: first_of_two_def page_of_def)

text \<open>
  Claim C7, at the input where the code departs from it. The server answers the request
  for the second page with status 500 and a body that is not JSON. No \<open>HTTPError\<close> with
  the status is raised: the response goes to \<^verbatim>\<open>json()\<close>, whose \<open>ValueError\<close> is what the
  caller gets. The same response to the request for the first page raises \<open>HTTPError 500\<close>.
  In both runs the request is sent once. When the body sent with the status 500 is a page,
  it is taken as the second page and nothing is raised.
\<close>

theorem next_page_status_not_checked:
  "games_list (loads_of [first_of_two, second_of_two]) (list_user_games 1)
     (world_of [''.''] []
        [response_of 200 (json_dumps first_of_two), response_of 500 ''Server Error (500)''])
   = (Inl ValueError,
      \<lparr>dirs = [''.''], files = [], incoming = [], requested = [sent_first, sent_second],
       slept = [], sigints = []\<rparr>)
   \<and> games_list (loads_of [first_of_two, second_of_two]) (list_user_games 1)
     (world_of [''.''] [] [response_of 500 ''Server Error (500)''])
   = (Inl (HTTPError 500),
      \<lparr>dirs = [''.''], files = [], incoming = [], requested = [sent_first],
       slept = [], sigints = []\<rparr>)
   \<and> games_list (loads_of [first_of_two, second_of_two]) (list_user_games 1)
     (world_of [''.''] []
        [response_of 200 (json_dumps first_of_two), response_of 500 (json_dumps second_of_two)])
   = (Inr [game_of 7, game_of 6],
      \<lparr>dirs = [''.''], files = [], incoming = [], requested = [sent_first, sent_second],
       slept = [], sigints = []\<rparr>)"
proof -
  let ?L = "loads_of [first_of_two, second_of_two]"
  let ?bad = "response_of 500 ''Server Error (500)''"
  let ?w1 = "\<lparr>dirs = [''.''], files = [], incoming = [?bad], requested = [sent_first],
       slept = [], sigints = []\<rparr>"
  let ?w2 = "\<lparr>dirs = [''.''], files = [], incoming = [], requested = [sent_first, sent_second],
       slept = [], sigints = []\<rparr>"
  have u: "str_int 1 = ''1''" by (simp add: str_int_def str_nat.simps)
  have nj: "?L ''Server Error (500)'' = Inl ValueError"
    using first_of_two_not_text second_of_two_not_text by (simp add: loads_of_def)
  have ld: "?L (json_dumps second_of_two) = Inr second_of_two"
    using pages_differ by (simp add: loads_of_def)
  have fp: "first_page ?L 1
      (world_of [''.''] [] [response_of 200 (json_dumps first_of_two), ?bad])
      = (Inr first_of_two, ?w1)"
    by (subst first_page_ok [where r = "response_of 200 (json_dumps first_of_two)"
          and rest = "[?bad]"])
      (simp_all add: world_of_def response_of_def loads_of_first sent_first_def u)
  have items: "page_items first_of_two = Inr [api_item_of 7]"
    by (simp add: page_items_def first_of_two_def page_of_def)
  have conv: "map_result GameInfo_from_api_dict [api_item_of 7] = Inr [game_of 7]"
    by (simp add: from_api_item_of)
  have link: "getitem first_of_two ''next''
      = Inr (JStr ''https://online-go.com/api/v1/players/1/games?page=2'')"
    by (simp add: first_of_two_def page_of_def)
  have np: "next_page ?L (JStr ''https://online-go.com/api/v1/players/1/games?page=2'') ?w1
      = (Inl ValueError, ?w2)"
    by (subst next_page_ok [where r = ?bad and rest = "[]"])
      (simp_all add: response_of_def nj sent_second_def is_http_url_def)
  have "games_list ?L (Suspended [api_item_of 7] first_of_two) ?w1 = (Inl ValueError, ?w2)"
    by (rule games_list_next_page_raise [OF conv link _ np]) simp
  with games_list_first_page [OF fp items]
  have second: "games_list ?L (list_user_games 1)
      (world_of [''.''] [] [response_of 200 (json_dumps first_of_two), ?bad])
      = (Inl ValueError, ?w2)" by simp
  have "first_page ?L 1 (world_of [''.''] [] [?bad])
      = (Inl (HTTPError 500),
         \<lparr>dirs = [''.''], files = [], incoming = [], requested = [sent_first],
       slept = [], sigints = []\<rparr>)"
    by (simp add: first_page_def throttled_get_result [where r = ?bad and rest = "[]"]
        world_of_def response_of_def raise_for_status_def sent_first_def u)
  from games_list_first_page_raise [OF this]
  have first: "games_list ?L (list_user_games 1) (world_of [''.''] [] [?bad])
      = (Inl (HTTPError 500),
         \<lparr>dirs = [''.''], files = [], incoming = [], requested = [sent_first],
       slept = [], sigints = []\<rparr>)" .
  let ?page = "response_of 500 (json_dumps second_of_two)"
  let ?v1 = "\<lparr>dirs = [''.''], files = [], incoming = [?page], requested = [sent_first],
       slept = [], sigints = []\<rparr>"
  have fp': "first_page ?L 1
      (world_of [''.''] [] [response_of 200 (json_dumps first_of_two), ?page])
      = (Inr first_of_two, ?v1)"
    by (subst first_page_ok [where r = "response_of 200 (json_dumps first_of_two)"
          and rest = "[?page]"])
      (simp_all add: world_of_def response_of_def loads_of_first sent_first_def u)
  have np': "next_page ?L (JStr ''https://online-go.com/api/v1/players/1/games?page=2'') ?v1
      = (Inr second_of_two, ?w2)"
    by (subst next_page_ok [where r = ?page and rest = "[]"])
      (simp_all add: response_of_def ld sent_second_def is_http_url_def)
  have items': "page_items second_of_two = Inr [api_item_of 6]"
    by (simp add: page_items_def second_of_two_def page_of_def)
  have conv': "map_result GameInfo_from_api_dict [api_item_of 6] = Inr [game_of 6]"
    by (simp add: from_api_item_of)
  have last: "getitem second_of_two ''next'' = Inr JNull"
    by (simp add: second_of_two_def page_of_def)
  have "games_list ?L (Suspended [api_item_of 7] first_of_two) ?v1
      = (Inr ([game_of 7] @ [game_of 6]), ?w2)"
    by (rule games_list_next_page [OF conv link _ np' items' games_list_last_page [OF conv' last]])
      simp
  with games_list_first_page [OF fp' items]
  have third: "games_list ?L (list_user_games 1)
      (world_of [''.''] [] [response_of 200 (json_dumps first_of_two), ?page])
      = (Inr [game_of 7, game_of 6], ?w2)" by simp
  from first second third show ?thesis by simp
qed

section \<open>Loading the games of every user\<close>

lemma read_index_files:
  "files w' = files w \<Longrightarrow> read_index loads w' u = read_index loads w u"
  by (simp add: read_index_def read_text_def)

text \<open>The first fetched game has the id of the first game of the old index.\<close>

lemma build_index_up_to_date:
  assumes "mkdir ''./index'' w = (Inr (), w0)"
    and "read_index loads w0 u = Inr old" and "old \<noteq> []"
    and "first_page loads u w0 = (Inr data, w1)"
    and "page_items data = Inr (item # items)"
    and "GameInfo_from_api_dict item = Inr x"
    and "id' (hd old) = id' x"
  shows "build_index loads u w = (Inr old, w1)"
proof -
  have "games_next loads (Unstarted u) w0 = (Inr (Some (x, Suspended items data)), w1)"
    using assms(4,5,6) by simp
  from build_loop_break [OF this assms(3,7)]
  have "build_loop loads old None [] (list_user_games u) w0 = (Inr (Some 0, []), w1)"
    by (simp add: list_user_games_def next_idx_def)
  with assms(1,2) show ?thesis by (simp add: build_index_def)
qed

text \<open>A game that is not archived yet, with the server answering and no interrupt.\<close>

lemma load_game_ok:
  assumes "\<not> path_exists w (archive_path user_id game_info)"
    and "incoming w = r # rest" and "status_code r \<noteq> 429"
    and "\<not> (400 \<le> status_code r \<and> status_code r < 600)"
    and "dirname (archive_path user_id game_info) \<in> set (dirs w)"
    and "sigints w = []"
  shows "load_game user_id game_info w =
           (Inr (),
            w\<lparr>incoming := rest,
              requested := requested w @
                [\<lparr>url = ''http://online-go.com/api/v1/games/'' @ str_int (id' game_info) @ ''/sgf/'',
                  params = []\<rparr>],
              files := AList.update (archive_path user_id game_info) (Text (text r)) (files w)\<rparr>)"
proof -
  let ?w1 = "w\<lparr>incoming := rest,
              requested := requested w @
                [\<lparr>url = ''http://online-go.com/api/v1/games/'' @ str_int (id' game_info) @ ''/sgf/'',
                  params = []\<rparr>]\<rparr>"
  have g: "throttled_get 10
             \<lparr>url = ''http://online-go.com/api/v1/games/'' @ str_int (id' game_info) @ ''/sgf/'',
              params = []\<rparr> w = (Inr r, ?w1)"
    using assms(2,3) by (rule throttled_get_result)
  have s: "raise_for_status r = Inr ()"
    using assms(4) by (auto simp: raise_for_status_def)
  from assms(1) have n: "map_of (files w) (archive_path user_id game_info) = None"
    "archive_path user_id game_info \<notin> set (dirs w)"
    by (simp_all add: path_exists_def)
  have "write_text (archive_path user_id game_info) (text r) ?w1 =
          (Inr (), ?w1\<lparr>files := AList.update (archive_path user_id game_info) (Text (text r))
                                 (files ?w1)\<rparr>)"
    by (rule write_text_ok [where s = "[]"]) (simp_all add: assms(5,6) n)
  then show ?thesis
    using assms(1) by (simp add: load_game_def g s del: append.simps)
qed

text \<open>
  The index directory holds the index of user 1 with game 7; the server has that game
  only and answers the request for its record.
\<close>

definition fetch_world :: world where
  "fetch_world = world_of [''.'', ''./index'']
     [(''./index/1.json'', Text (json_dumps (indexed_doc [7])))]
     [response_of 200 (json_dumps (page_of [api_item_of 7] JNull)),
      response_of 200 ''(;GM[1]SZ[19])'']"

definition fetch_done :: world where
  "fetch_done = \<lparr>dirs = [''.'', ''./index'', ''./games'', ''./games/1''],
     files = [(''./index/1.json'', Text (json_dumps (indexed_doc [7]))),
              (''./games/1/7 g [b vs w].sgf'', Text ''(;GM[1]SZ[19])'')],
     incoming = [],
     requested = [\<lparr>url = ''https://online-go.com/api/v1/players/1/games'', params = query\<rparr>,
                  \<lparr>url = ''http://online-go.com/api/v1/games/7/sgf/'', params = []\<rparr>],
     slept = [], sigints = []\<rparr>"

definition fetch_indexed :: world where
  "fetch_indexed = \<lparr>dirs = [''.'', ''./index''],
     files = [(''./index/1.json'', Text (json_dumps (indexed_doc [7])))],
     incoming = [response_of 200 ''(;GM[1]SZ[19])''],
     requested = [\<lparr>url = ''https://online-go.com/api/v1/players/1/games'', params = query\<rparr>],
     slept = [], sigints = []\<rparr>"

lemma fetch_world_read: "read_index (indexed_loads [7] [7]) fetch_world 1 = Inr [game_of 7]"
proof -
  have "files fetch_world = files (indexed_world [7] [7])"
    by (simp add: fetch_world_def indexed_world_def world_of_def)
  from read_index_files [OF this] indexed_read [of "[7]" "[7]"] show ?thesis by simp
qed

lemma fetch_world_indices:
  "get_all_indices (indexed_loads [7] [7]) fetch_world = Inr [(1, [game_of 7])]"
proof -
  have l: "listdir fetch_world ''./index'' = Inr [''1.json'']"
    by (simp add: listdir_def fetch_world_def world_of_def entry_in_def List.map_filter_simps)
  have i: "py_int ''1'' = Inr 1"
    by (simp add: py_int_def is_digit_def digits_value_def)
  show ?thesis
    by (simp add: get_all_indices_def l endswith_def i fetch_world_read)
qed

lemma fetch_world_build:
  "build_index (indexed_loads [7] [7]) 1 fetch_world = (Inr [game_of 7], fetch_indexed)"
proof -
  let ?page = "page_of [api_item_of 7] JNull"
  have mk: "mkdir ''./index'' fetch_world = (Inr (), fetch_world)"
    by (simp add: mkdir_def fetch_world_def world_of_def)
  have ld: "indexed_loads [7] [7] (json_dumps ?page) = Inr ?page"
    using indexed_loads_page [of "[7]" "[7]"] by (simp del: json_dumps.simps)
  have fp: "first_page (indexed_loads [7] [7]) 1 fetch_world = (Inr ?page, fetch_indexed)"
    by (subst first_page_ok [where r = "response_of 200 (json_dumps ?page)"
          and rest = "[response_of 200 ''(;GM[1]SZ[19])'']"])
      (simp_all add: fetch_world_def world_of_def response_of_def ld
        fetch_indexed_def str_int_1 del: json_dumps.simps)
  have items: "page_items ?page = Inr (api_item_of 7 # [])"
    by (simp add: page_items_def page_of_def)
  show ?thesis
    by (rule build_index_up_to_date [OF mk fetch_world_read _ fp items from_api_item_of])
      (simp_all add: id_game_of)
qed

lemma fetch_world_mkdir:
  "mkdir_parents ''./games/1'' fetch_indexed
     = (Inr (), fetch_indexed\<lparr>dirs := [''.'', ''./index'', ''./games'', ''./games/1'']\<rparr>)"
  by (simp add: mkdir_parents_def mkdir_def dirname_def fetch_indexed_def)

lemma fetch_world_load:
  "load_game 1 (game_of 7) (fetch_indexed\<lparr>dirs := [''.'', ''./index'', ''./games'', ''./games/1'']\<rparr>)
     = (Inr (), fetch_done)"
proof -
  have i: "str_int (id' (game_of 7)) = ''7''"
    by (simp add: game_of_def str_int_def str_nat.simps)
  show ?thesis
    by (subst load_game_ok [where r = "response_of 200 ''(;GM[1]SZ[19])''" and rest = "[]"])
      (simp_all add: archive_path_7 path_exists_def fetch_indexed_def response_of_def
        dirname_def fetch_done_def i)
qed

lemma fetch_world_taken:
  "load_taken 1 [game_of 7] limit
     (fetch_indexed\<lparr>dirs := [''.'', ''./index'', ''./games'', ''./games/1'']\<rparr>)
   = (case limit of
        None \<Rightarrow> (Inl TypeError, fetch_done)
      | Some n \<Rightarrow>
          if 1 < n then (Inl RuntimeError, fetch_done)
          else if n = 1 then (Inr (), fetch_done)
          else (Inr (), fetch_indexed\<lparr>dirs := [''.'', ''./index'', ''./games'', ''./games/1'']\<rparr>))"
  by (cases limit) (auto simp: load_taken_def take_py_def fetch_world_load)

lemma fetch_world_all:
  "load_all_games (indexed_loads [7] [7]) limit None fetch_world
     = load_taken 1 [game_of 7] limit
         (fetch_indexed\<lparr>dirs := [''.'', ''./index'', ''./games'', ''./games/1'']\<rparr>)"
proof -
  have "load_indices limit [(1, [game_of 7])] fetch_indexed
     = load_taken 1 [game_of 7] limit
         (fetch_indexed\<lparr>dirs := [''.'', ''./index'', ''./games'', ''./games/1'']\<rparr>)"
    by (simp add: str_int_1 fetch_world_mkdir split: prod.splits sum.splits)
  then show ?thesis
    by (simp add: load_all_games_def fetch_world_indices fetch_world_build)
qed

text \<open>
  Claim C6, at the inputs where the code departs from it. The index of the user has one
  game. With no limit the game is loaded and then \<open>load_all_games\<close> raises a \<open>TypeError\<close>,
  from \<^verbatim>\<open>range(None)\<close> in \<open>take\<close>; with limit 5 the game is loaded and then it raises a
  \<open>RuntimeError\<close>, from \<^verbatim>\<open>next\<close> on the exhausted iterator. With limit 1 it returns.
\<close>

theorem load_all_games_take_raises:
  "load_all_games (indexed_loads [7] [7]) None None fetch_world = (Inl TypeError, fetch_done)
   \<and> load_all_games (indexed_loads [7] [7]) (Some 5) None fetch_world
       = (Inl RuntimeError, fetch_done)
   \<and> load_all_games (indexed_loads [7] [7]) (Some 1) None fetch_world = (Inr (), fetch_done)
   \<and> map_of (files fetch_done) (archive_path 1 (game_of 7)) = Some (Text ''(;GM[1]SZ[19])'')"
  by (simp add: fetch_world_all fetch_world_taken archive_path_7 fetch_done_def)

end
